theory Spec2Isabelle
  imports Main
begin

section \<open>The glirc Lua extension (lua-extension/glirc-lua.c)\<close>

text \<open>
  The extension is C code written against the Lua C API. The embedding has three layers:
  \<^item> the interpreter state that the C API exposes (value stack, registry, globals, table
    heap), with the API functions the file calls as state transformers;
  \<^item> an \<open>environment\<close> that fixes everything the file cannot see: the user's Lua code,
    the file system, the C library, the host services;
  \<^item> the C functions of the file, one definition each, under the names of the source.
\<close>

subsection \<open>Lua values\<close>

text \<open>The two C functions this file hands to the interpreter with \<open>lua_pushcfunction\<close>.\<close>

datatype cfunction = Initialize_lua | Callback_worker

text \<open>
  Light userdata are C addresses. The only one the file uses is the address of the static
  variable \<open>glirc_callback_module_key\<close>.
\<close>

datatype pointer = Glirc_callback_module_key | Address nat

text \<open>
  Tables live in the heap and are values by reference. \<open>LFunction\<close> stands for every
  function the bridge did not push itself (Lua closures, library functions); what such a
  function does is given by the environment. Numbers are Lua integers; the float subtype
  is not represented.
\<close>

datatype lua_value =
    LNil
  | LBoolean bool
  | LNumber int
  | LString string
  | LTable nat
  | LFunction nat
  | LCFunction cfunction
  | LLightUserdata pointer
  | LUserdata nat

datatype lua_type =
    LUA_TNONE | LUA_TNIL | LUA_TBOOLEAN | LUA_TLIGHTUSERDATA | LUA_TNUMBER
  | LUA_TSTRING | LUA_TTABLE | LUA_TFUNCTION | LUA_TUSERDATA

fun type_of_value :: "lua_value \<Rightarrow> lua_type" where
  "type_of_value LNil = LUA_TNIL"
| "type_of_value (LBoolean _) = LUA_TBOOLEAN"
| "type_of_value (LNumber _) = LUA_TNUMBER"
| "type_of_value (LString _) = LUA_TSTRING"
| "type_of_value (LTable _) = LUA_TTABLE"
| "type_of_value (LFunction _) = LUA_TFUNCTION"
| "type_of_value (LCFunction _) = LUA_TFUNCTION"
| "type_of_value (LLightUserdata _) = LUA_TLIGHTUSERDATA"
| "type_of_value (LUserdata _) = LUA_TUSERDATA"

fun lua_typename :: "lua_type \<Rightarrow> string" where
  "lua_typename LUA_TNONE = ''no value''"
| "lua_typename LUA_TNIL = ''nil''"
| "lua_typename LUA_TBOOLEAN = ''boolean''"
| "lua_typename LUA_TLIGHTUSERDATA = ''userdata''"
| "lua_typename LUA_TNUMBER = ''number''"
| "lua_typename LUA_TSTRING = ''string''"
| "lua_typename LUA_TTABLE = ''table''"
| "lua_typename LUA_TFUNCTION = ''function''"
| "lua_typename LUA_TUSERDATA = ''userdata''"

subsection \<open>The interpreter state\<close>

text \<open>
  A table maps every key to a value; \<open>LNil\<close> means that the key has no entry, so storing
  nil removes an entry, as in Lua. \<open>metatable\<close> is the heap reference of the table's
  metatable, if it has one.
\<close>

record lua_table =
  entries :: "lua_value \<Rightarrow> lua_value"
  metatable :: "nat option"

text \<open>
  \<open>stack\<close> is the C API stack of the running C function, bottom first: index 1 is the
  head of the list and index -1 its last element. \<open>LTable r\<close> refers to \<open>heap ! r\<close>.
  \<open>extraspace\<close> is the memory of \<open>lua_getextraspace\<close>, where start stores the host token.
\<close>

record lua_State =
  stack :: "lua_value list"
  registry :: "lua_value \<Rightarrow> lua_value"
  globals :: "string \<Rightarrow> lua_value"
  heap :: "lua_table list"
  extraspace :: nat

subsection \<open>The host\<close>

datatype message_code = NORMAL_MESSAGE | ERROR_MESSAGE

datatype process_result = PASS_MESSAGE | DROP_MESSAGE

text \<open>A call from a running script back into the host API (the functions of glirc-lib).\<close>

datatype host_call = HostCall string "string list"

text \<open>
  What the extension does to the outside, in the order in which it happens:
  \<open>Print code msg len\<close> is a call \<open>glirc_print(G, code, msg, len)\<close> made by this file, with
  \<open>msg = None\<close> for a null pointer; \<open>Reentry\<close> is a host call made by a script while it
  runs; \<open>Close\<close> is \<open>lua_close\<close>.
\<close>

datatype effect = Print message_code "string option" nat | Reentry host_call | Close

text \<open>The host handle \<open>struct glirc *G\<close>: its address and the record of effects so far.\<close>

record glirc =
  handle :: nat
  trace :: "effect list"

text \<open>
  Outcomes of running C code that calls into the interpreter: it returns, or the script it
  called never returns, or the C code itself has undefined behaviour.
\<close>

datatype fault = NullDereference | InvalidStackIndex

datatype 'a exec = Returns 'a | Diverges | Faults fault

text \<open>
  Code that runs inside a protected call either raises a Lua error value (\<open>Inl\<close>) or
  completes (\<open>Inr\<close>); it leaves a state and the host calls that scripts made meanwhile.
\<close>

type_synonym 'a lua_result = "((lua_value + 'a) \<times> lua_State \<times> host_call list) exec"

subsection \<open>The environment\<close>

text \<open>
  Everything outside the file:
  \<^item> \<open>lua_extraspace\<close>, \<open>sizeof_glirc_ptr\<close>: the constants \<open>LUA_EXTRASPACE\<close> and
    \<open>sizeof(struct glirc *)\<close> of the build;
  \<^item> \<open>newstate_fails\<close>: whether \<open>luaL_newstate\<close> finds no memory;
  \<^item> \<open>version_error\<close>: the message \<open>luaL_checkversion\<close> raises, if the library does not match;
  \<^item> \<open>loadfile\<close>: the file system and the compiler, from a file name to an error message
    (\<open>Inl\<close>) or the compiled chunk;
  \<^item> \<open>openlibs\<close>, \<open>install_lib\<close>: what \<open>luaL_openlibs\<close> and \<open>glirc_install_lib\<close> put into
    the state;
  \<^item> \<open>call_value\<close>: what calling a value with arguments does: \<open>None\<close> when it never
    returns, else an error value or the results, the state it leaves and the host calls
    it made. The state it receives and leaves has its own frame: the stack field is not
    the caller's;
  \<^item> \<open>index_event\<close>: indexing a value through a metamethod, in the same style;
  \<^item> \<open>dirname\<close>: the function of libgen.h;
  \<^item> \<open>resolve_path\<close>: the host's \<open>glirc_resolve_path\<close>, from the host token and a raw path.
\<close>

record environment =
  lua_extraspace :: nat
  sizeof_glirc_ptr :: nat
  newstate_fails :: bool
  version_error :: "string option"
  loadfile :: "string \<Rightarrow> string + lua_value"
  openlibs :: "lua_State \<Rightarrow> lua_State"
  install_lib :: "lua_State \<Rightarrow> lua_State"
  call_value :: "lua_value \<Rightarrow> lua_value list \<Rightarrow> lua_State
                   \<Rightarrow> ((lua_value + lua_value list) \<times> lua_State \<times> host_call list) option"
  index_event :: "lua_value \<Rightarrow> lua_value \<Rightarrow> lua_State
                   \<Rightarrow> ((lua_value + lua_value) \<times> lua_State \<times> host_call list) option"
  dirname :: "string \<Rightarrow> string"
  resolve_path :: "nat \<Rightarrow> string \<Rightarrow> string"

subsection \<open>C strings\<close>

text \<open>
  A value of type \<open>const char *\<close> is modelled by the text before its terminator. A Lua
  string has an explicit length and may contain zero bytes; a pointer to it, read as a C
  string, ends at the first one.
\<close>

definition c_str :: "string \<Rightarrow> string" where
  "c_str s = takeWhile (\<lambda>c. c \<noteq> CHR 0x00) s"

definition strlen :: "string \<Rightarrow> nat" where
  "strlen s = length s"

text \<open>Decimal text of a Lua integer, as \<open>lua_tolstring\<close> produces it.\<close>

function digits :: "nat \<Rightarrow> string" where
  "digits n = (if n < 10 then [char_of (48 + n)]
               else digits (n div 10) @ [char_of (48 + n mod 10)])"
  by pat_completeness auto
termination
  by (relation "measure (\<lambda>n. n)") auto

declare digits.simps [simp del]

definition tostring_integer :: "int \<Rightarrow> string" where
  "tostring_integer i = (if i < 0 then CHR ''-'' # digits (nat (- i)) else digits (nat i))"

subsection \<open>The Lua C API\<close>

text \<open>
  The functions of lua.h and lauxlib.h that the file calls, after the reference manual.
  An index is valid when it names an element of the stack; where the manual leaves the
  behaviour at an invalid index undefined, the transformers below leave the state as it
  is and read nil. Memory errors of the allocator are not represented.
\<close>

definition absindex :: "lua_State \<Rightarrow> int \<Rightarrow> nat" where
  "absindex L idx = (if idx > 0 then nat idx else nat (int (length (stack L)) + idx + 1))"

definition valid_index :: "lua_State \<Rightarrow> int \<Rightarrow> bool" where
  "valid_index L idx = (1 \<le> absindex L idx \<and> absindex L idx \<le> length (stack L))"

definition index2value :: "lua_State \<Rightarrow> int \<Rightarrow> lua_value" where
  "index2value L idx = (if valid_index L idx then stack L ! (absindex L idx - 1) else LNil)"

definition lua_type :: "lua_State \<Rightarrow> int \<Rightarrow> lua_type" where
  "lua_type L idx = (if valid_index L idx then type_of_value (index2value L idx) else LUA_TNONE)"

definition lua_gettop :: "lua_State \<Rightarrow> nat" where
  "lua_gettop L = length (stack L)"

definition lua_settop :: "lua_State \<Rightarrow> nat \<Rightarrow> lua_State" where
  "lua_settop L n = L\<lparr>stack := take n (stack L) @ replicate (n - length (stack L)) LNil\<rparr>"

definition push :: "lua_State \<Rightarrow> lua_value \<Rightarrow> lua_State" where
  "push L v = L\<lparr>stack := stack L @ [v]\<rparr>"

definition pop :: "lua_State \<Rightarrow> lua_State" where
  "pop L = L\<lparr>stack := butlast (stack L)\<rparr>"

definition lua_pushcfunction :: "lua_State \<Rightarrow> cfunction \<Rightarrow> lua_State" where
  "lua_pushcfunction L f = push L (LCFunction f)"

definition lua_pushstring :: "lua_State \<Rightarrow> string \<Rightarrow> lua_State" where
  "lua_pushstring L s = push L (LString s)"

definition lua_pushliteral :: "lua_State \<Rightarrow> string \<Rightarrow> lua_State" where
  "lua_pushliteral L s = push L (LString s)"

text \<open>
  \<open>lua_rotate(L, idx, n)\<close> rotates the elements from \<open>idx\<close> to the top by \<open>n\<close> positions
  towards the top, or by \<open>-n\<close> positions towards the bottom when \<open>n\<close> is negative.
\<close>

definition lua_rotate :: "lua_State \<Rightarrow> int \<Rightarrow> int \<Rightarrow> lua_State" where
  "lua_rotate L idx n =
     (let a = absindex L idx;
          seg = drop (a - 1) (stack L);
          k = (if n \<ge> 0 then length seg - nat n else nat (- n))
      in if valid_index L idx \<and> nat \<bar>n\<bar> \<le> length seg
         then L\<lparr>stack := take (a - 1) (stack L) @ drop k seg @ take k seg\<rparr>
         else L)"

definition lua_insert :: "lua_State \<Rightarrow> int \<Rightarrow> lua_State" where
  "lua_insert L idx = lua_rotate L idx 1"

text \<open>The size hints of \<open>lua_createtable\<close> do not change what the table holds.\<close>

definition lua_createtable :: "lua_State \<Rightarrow> nat \<Rightarrow> nat \<Rightarrow> lua_State" where
  "lua_createtable L narr nrec =
     push (L\<lparr>heap := heap L @ [\<lparr>entries = (\<lambda>_. LNil), metatable = None\<rparr>]\<rparr>)
          (LTable (length (heap L)))"

text \<open>\<open>lua_rawseti(L, idx, n)\<close>: \<open>t[n] = v\<close> for the table \<open>t\<close> at \<open>idx\<close> and the value \<open>v\<close> on top; pops \<open>v\<close>.\<close>

definition lua_rawseti :: "lua_State \<Rightarrow> int \<Rightarrow> int \<Rightarrow> lua_State" where
  "lua_rawseti L idx n =
     (case index2value L idx of
        LTable r \<Rightarrow>
          if r < length (heap L) \<and> stack L \<noteq> []
          then pop (L\<lparr>heap := (heap L)[r := (heap L ! r)
                 \<lparr>entries := (entries (heap L ! r))(LNumber n := last (stack L))\<rparr>]\<rparr>)
          else L
      | _ \<Rightarrow> L)"

definition lua_setglobal :: "lua_State \<Rightarrow> string \<Rightarrow> lua_State" where
  "lua_setglobal L name =
     (if stack L \<noteq> [] then pop (L\<lparr>globals := (globals L)(name := last (stack L))\<rparr>) else L)"

text \<open>
  \<open>lua_rawgetp\<close> and \<open>lua_rawsetp\<close> are only used on the registry
  (\<open>LUA_REGISTRYINDEX\<close>), with a C address as key.
\<close>

definition lua_rawgetp :: "lua_State \<Rightarrow> pointer \<Rightarrow> lua_State" where
  "lua_rawgetp L p = push L (registry L (LLightUserdata p))"

definition lua_rawsetp :: "lua_State \<Rightarrow> pointer \<Rightarrow> lua_State" where
  "lua_rawsetp L p =
     (if stack L \<noteq> []
      then pop (L\<lparr>registry := (registry L)(LLightUserdata p := last (stack L))\<rparr>)
      else L)"

text \<open>Everything but nil and false is true.\<close>

fun truthy :: "lua_value \<Rightarrow> bool" where
  "truthy LNil = False"
| "truthy (LBoolean b) = b"
| "truthy _ = True"

definition lua_toboolean :: "lua_State \<Rightarrow> int \<Rightarrow> bool" where
  "lua_toboolean L idx = truthy (index2value L idx)"

text \<open>
  \<open>lua_tolstring(L, idx, &len)\<close>: the text and length of a string; a number is first turned
  into a string in place; for any other value the result is a null pointer and the
  length is set to 0.
\<close>

fun tostring_value :: "lua_value \<Rightarrow> string option" where
  "tostring_value (LString s) = Some s"
| "tostring_value (LNumber i) = Some (tostring_integer i)"
| "tostring_value _ = None"

definition lua_tolstring :: "lua_State \<Rightarrow> int \<Rightarrow> string option \<times> nat \<times> lua_State" where
  "lua_tolstring L idx =
     (case tostring_value (index2value L idx) of
        None \<Rightarrow> (None, 0, L)
      | Some s \<Rightarrow>
          (Some s, length s, L\<lparr>stack := (stack L)[absindex L idx - 1 := LString s]\<rparr>))"

text \<open>\<open>lua_tostring(L, idx)\<close> is \<open>lua_tolstring(L, idx, NULL)\<close>; its result is used as a C string.\<close>

definition lua_tostring :: "lua_State \<Rightarrow> int \<Rightarrow> string option \<times> lua_State" where
  "lua_tostring L idx =
     (case lua_tolstring L idx of (s, _, L1) \<Rightarrow> (map_option c_str s, L1))"

text \<open>
  \<open>lua_gettable(L, idx)\<close>: pops the key, pushes \<open>t[key]\<close> for the value \<open>t\<close> at \<open>idx\<close> and
  returns the type of what it pushed. A table that holds the key, or that has no
  metatable, settles the lookup by itself; in every other case the index event of the
  environment decides, and may raise.
\<close>

definition index_raw :: "lua_State \<Rightarrow> lua_value \<Rightarrow> lua_value \<Rightarrow> lua_value option" where
  "index_raw L t k =
     (case t of
        LTable r \<Rightarrow>
          if r < length (heap L)
          then (if entries (heap L ! r) k \<noteq> LNil then Some (entries (heap L ! r) k)
                else if metatable (heap L ! r) = None then Some LNil
                else None)
          else None
      | _ \<Rightarrow> None)"

definition lua_gettable :: "environment \<Rightarrow> lua_State \<Rightarrow> int \<Rightarrow> lua_type lua_result" where
  "lua_gettable env L idx =
     (let t = index2value L idx;
          k = (if stack L = [] then LNil else last (stack L));
          L1 = pop L
      in case index_raw L t k of
           Some v \<Rightarrow> Returns (Inr (type_of_value v), push L1 v, [])
         | None \<Rightarrow>
             (case index_event env t k (L1\<lparr>stack := []\<rparr>) of
                None \<Rightarrow> Diverges
              | Some (Inl e, L2, hc) \<Rightarrow> Returns (Inl e, L2\<lparr>stack := stack L1\<rparr>, hc)
              | Some (Inr v, L2, hc) \<Rightarrow>
                  Returns (Inr (type_of_value v), push (L2\<lparr>stack := stack L1\<rparr>) v, hc)))"

text \<open>A call delivers exactly \<open>nresults\<close> values: surplus ones are dropped, missing ones are nil.\<close>

definition adjust :: "nat \<Rightarrow> lua_value list \<Rightarrow> lua_value list" where
  "adjust n rs = take n rs @ replicate (n - length rs) LNil"

text \<open>
  \<open>lua_call(L, nargs, nresults)\<close>: calls the value below the \<open>nargs\<close> arguments on top of the
  stack and replaces function and arguments by the results. An error of the callee is
  raised in the caller. The callee is never one of the two C functions of this file:
  they are not reachable from the values a script sees.
\<close>

definition lua_call :: "environment \<Rightarrow> lua_State \<Rightarrow> nat \<Rightarrow> nat \<Rightarrow> unit lua_result" where
  "lua_call env L nargs nresults =
     (let st = stack L in
      if length st < Suc nargs then Faults InvalidStackIndex
      else
        let fpos = length st - Suc nargs in
        case call_value env (st ! fpos) (drop (Suc fpos) st) (L\<lparr>stack := []\<rparr>) of
          None \<Rightarrow> Diverges
        | Some (Inl e, L1, hc) \<Rightarrow> Returns (Inl e, L1\<lparr>stack := take fpos st\<rparr>, hc)
        | Some (Inr rs, L1, hc) \<Rightarrow>
            Returns (Inr (), L1\<lparr>stack := take fpos st @ adjust nresults rs\<rparr>, hc))"

text \<open>
  The message of lauxlib's \<open>typeerror\<close>, for a C function that has no name in the
  debug information.
\<close>

definition typeerror :: "lua_State \<Rightarrow> int \<Rightarrow> string \<Rightarrow> lua_value" where
  "typeerror L arg tname =
     LString (''bad argument #'' @ tostring_integer arg @ '' to '' @ [CHR 0x27, CHR ''?'', CHR 0x27]
              @ '' ('' @ tname @ '' expected, got ''
              @ (if lua_type L arg = LUA_TLIGHTUSERDATA then ''light userdata''
                 else lua_typename (lua_type L arg)) @ '')'')"

definition luaL_checktype :: "lua_State \<Rightarrow> int \<Rightarrow> lua_type \<Rightarrow> lua_value option" where
  "luaL_checktype L arg t =
     (if lua_type L arg \<noteq> t then Some (typeerror L arg (lua_typename t)) else None)"

definition luaL_checkstring :: "lua_State \<Rightarrow> int \<Rightarrow> lua_value + string \<times> lua_State" where
  "luaL_checkstring L arg =
     (case lua_tolstring L arg of
        (None, _, _) \<Rightarrow> Inl (typeerror L arg (lua_typename LUA_TSTRING))
      | (Some s, _, L1) \<Rightarrow> Inr (c_str s, L1))"

text \<open>
  \<open>luaL_loadfile\<close> pushes the compiled chunk and returns 0 (\<open>False\<close>), or pushes an error
  message and returns a non-zero status (\<open>True\<close>).
\<close>

definition luaL_loadfile :: "environment \<Rightarrow> lua_State \<Rightarrow> string \<Rightarrow> bool \<times> lua_State" where
  "luaL_loadfile env L filename =
     (case loadfile env filename of
        Inl msg \<Rightarrow> (True, push L (LString msg))
      | Inr chunk \<Rightarrow> (False, push L chunk))"

text \<open>Both library installers leave the C stack as they found it.\<close>

definition luaL_openlibs :: "environment \<Rightarrow> lua_State \<Rightarrow> lua_State" where
  "luaL_openlibs env L = (openlibs env L)\<lparr>stack := stack L\<rparr>"

definition glirc_install_lib :: "environment \<Rightarrow> lua_State \<Rightarrow> lua_State" where
  "glirc_install_lib env L = (install_lib env L)\<lparr>stack := stack L\<rparr>"

text \<open>A new state is empty; \<open>luaL_newstate\<close> returns a null pointer when memory is short.\<close>

definition luaL_newstate :: "environment \<Rightarrow> lua_State option" where
  "luaL_newstate env =
     (if newstate_fails env then None
      else Some \<lparr>stack = [], registry = (\<lambda>_. LNil), globals = (\<lambda>_. LNil), heap = [],
                 extraspace = 0\<rparr>)"

definition lua_close :: "glirc \<Rightarrow> lua_State \<Rightarrow> glirc" where
  "lua_close G L = G\<lparr>trace := trace G @ [Close]\<rparr>"

subsection \<open>Host services and marshaling\<close>

definition glirc_print :: "glirc \<Rightarrow> message_code \<Rightarrow> string option \<Rightarrow> nat \<Rightarrow> glirc" where
  "glirc_print G code msg len = G\<lparr>trace := trace G @ [Print code msg len]\<rparr>"

text \<open>The host calls of the scripts that ran, appended to the record in their order.\<close>

definition reentries :: "glirc \<Rightarrow> host_call list \<Rightarrow> glirc" where
  "reentries G hc = G\<lparr>trace := trace G @ map Reentry hc\<rparr>"

text \<open>
  Modelled from the spec: \<open>get_glirc\<close> of glirc-lib, which is not under src/. It reads
  back the host token that start stored in the interpreter's extra space.
\<close>

definition get_glirc :: "lua_State \<Rightarrow> nat" where
  "get_glirc L = extraspace L"

text \<open>The event payloads of the host (spec, data model).\<close>

record glirc_message =
  msg_tags :: "(string \<times> string) list"
  msg_network :: string
  msg_prefix_nick :: "string option"
  msg_prefix_user :: "string option"
  msg_prefix_host :: "string option"
  msg_command :: string
  msg_params :: "string list"

record glirc_command =
  cmd_command :: string

record glirc_chat =
  chat_network :: string
  chat_target :: string
  chat_message :: string

fun table_of :: "(lua_value \<times> lua_value) list \<Rightarrow> lua_value \<Rightarrow> lua_value" where
  "table_of [] = (\<lambda>_. LNil)"
| "table_of ((k, v) # kvs) = (table_of kvs)(k := v)"

definition new_table :: "lua_State \<Rightarrow> (lua_value \<times> lua_value) list \<Rightarrow> lua_State \<times> lua_value" where
  "new_table L kvs =
     (L\<lparr>heap := heap L @ [\<lparr>entries = table_of kvs, metatable = None\<rparr>]\<rparr>,
      LTable (length (heap L)))"

definition optional_string :: "string option \<Rightarrow> lua_value" where
  "optional_string s = (case s of None \<Rightarrow> LNil | Some t \<Rightarrow> LString t)"

text \<open>
  Modelled from the spec: the marshaling functions of glirc-marshal, which are not under
  src/. Each pushes exactly one value: a string, or a new table with the fields the
  spec lists (\<open>params\<close> counted from 1, an absent prefix part left out).
\<close>

definition push_glirc_string :: "lua_State \<Rightarrow> string \<Rightarrow> lua_State" where
  "push_glirc_string L s = push L (LString s)"

definition push_glirc_message :: "lua_State \<Rightarrow> glirc_message \<Rightarrow> lua_State" where
  "push_glirc_message L msg =
     (let (L1, tags) = new_table L (map (\<lambda>(k, v). (LString k, LString v)) (msg_tags msg));
          (L2, prefix) = new_table L1
             [(LString ''nick'', optional_string (msg_prefix_nick msg)),
              (LString ''user'', optional_string (msg_prefix_user msg)),
              (LString ''host'', optional_string (msg_prefix_host msg))];
          (L3, params) = new_table L2
             (zip (map (\<lambda>i. LNumber (int i)) [1 ..< Suc (length (msg_params msg))])
                  (map LString (msg_params msg)));
          (L4, m) = new_table L3
             [(LString ''tags'', tags),
              (LString ''network'', LString (msg_network msg)),
              (LString ''prefix'', prefix),
              (LString ''command'', LString (msg_command msg)),
              (LString ''params'', params)]
      in push L4 m)"

definition push_glirc_command :: "lua_State \<Rightarrow> glirc_command \<Rightarrow> lua_State" where
  "push_glirc_command L cmd =
     (let (L1, c) = new_table L [(LString ''command'', LString (cmd_command cmd))]
      in push L1 c)"

definition push_glirc_chat :: "lua_State \<Rightarrow> glirc_chat \<Rightarrow> lua_State" where
  "push_glirc_chat L chat =
     (let (L1, c) = new_table L
             [(LString ''network'', LString (chat_network chat)),
              (LString ''target'', LString (chat_target chat)),
              (LString ''message'', LString (chat_message chat))]
      in push L1 c)"

subsection \<open>The C functions of glirc-lua.c\<close>

text \<open>
  \<open>initialize_lua\<close> runs inside the protected call of start: every \<open>Inl\<close> is a raised
  error. It returns 0 results.
\<close>

definition initialize_lua :: "environment \<Rightarrow> lua_State \<Rightarrow> nat lua_result" where
  "initialize_lua env L =
     (case version_error env of
        Some m \<Rightarrow> Returns (Inl (LString m), L, [])
      | None \<Rightarrow>
     (case luaL_checktype L 1 LUA_TTABLE of
        Some e \<Rightarrow> Returns (Inl e, L, [])
      | None \<Rightarrow>
     (case luaL_checkstring L 2 of
        Inl e \<Rightarrow> Returns (Inl e, L, [])
      | Inr (scriptpath, L1) \<Rightarrow>
     (case luaL_checktype L1 3 LUA_TNONE of
        Some e \<Rightarrow> Returns (Inl e, L1, [])
      | None \<Rightarrow>
     (case luaL_loadfile env L1 scriptpath of
        (True, L2) \<Rightarrow> Returns (Inl (index2value L2 (- 1)), L2, [])
      | (False, L2) \<Rightarrow>
          let L3 = lua_insert L2 1;
              L4 = lua_rawseti L3 (- 2) 0;
              L5 = lua_setglobal L4 ''arg'';
              L6 = luaL_openlibs env L5;
              L7 = glirc_install_lib env L6
          in (case lua_call env L7 0 1 of
                Diverges \<Rightarrow> Diverges
              | Faults x \<Rightarrow> Faults x
              | Returns (Inl e, L8, hc) \<Rightarrow> Returns (Inl e, L8, hc)
              | Returns (Inr _, L8, hc) \<Rightarrow>
                  Returns (Inr 0, lua_rawsetp L8 Glirc_callback_module_key, hc)))))))"

text \<open>
  \<open>args\<close> is the array of \<open>glirc_string\<close> with its length; \<open>path\<close> is a C string.
  \<open>lua_pushfstring\<close> with the format \<open>%s/glirc.lua\<close> appends the file name to the directory.
\<close>

definition push_scriptname :: "environment \<Rightarrow> lua_State \<Rightarrow> string \<Rightarrow> string list \<Rightarrow> lua_State" where
  "push_scriptname env L path args =
     (if length args = 0
      then let path_copy = path;
               dir_part = dirname env path_copy
           in push L (LString (dir_part @ ''/glirc.lua''))
      else let script = resolve_path env (get_glirc L) (args ! 0)
           in lua_pushstring L script)"

definition callback_worker :: "environment \<Rightarrow> lua_State \<Rightarrow> nat lua_result" where
  "callback_worker env L =
     (let n = lua_gettop L;
          L1 = lua_rawgetp L Glirc_callback_module_key;
          L2 = lua_insert L1 1;
          L3 = lua_rotate L2 2 (- 1)
      in case lua_gettable env L3 1 of
           Diverges \<Rightarrow> Diverges
         | Faults x \<Rightarrow> Faults x
         | Returns (Inl e, L4, hc) \<Rightarrow> Returns (Inl e, L4, hc)
         | Returns (Inr ty, L4, hc) \<Rightarrow>
             if ty \<noteq> LUA_TNIL
             then let L5 = lua_insert L4 1
                  in (case lua_call env L5 n 1 of
                        Diverges \<Rightarrow> Diverges
                      | Faults x \<Rightarrow> Faults x
                      | Returns (Inl e, L6, hc') \<Rightarrow> Returns (Inl e, L6, hc @ hc')
                      | Returns (Inr _, L6, hc') \<Rightarrow> Returns (Inr 1, L6, hc @ hc'))
             else Returns (Inr 1, L4, hc))"

subsection \<open>Protected calls\<close>

datatype status = LUA_OK | LUA_ERRRUN

text \<open>
  A C function runs in a frame of its own, whose stack holds its arguments; the number it
  returns says how many values on top of its stack are its results.
\<close>

definition call_cfunction :: "environment \<Rightarrow> cfunction \<Rightarrow> lua_State \<Rightarrow> (lua_value list) lua_result" where
  "call_cfunction env f L =
     (case (case f of Initialize_lua \<Rightarrow> initialize_lua env L
                    | Callback_worker \<Rightarrow> callback_worker env L) of
        Diverges \<Rightarrow> Diverges
      | Faults x \<Rightarrow> Faults x
      | Returns (Inl e, L1, hc) \<Rightarrow> Returns (Inl e, L1, hc)
      | Returns (Inr n, L1, hc) \<Rightarrow>
          Returns (Inr (drop (length (stack L1) - n) (stack L1)), L1, hc))"

text \<open>
  \<open>lua_pcall(L, nargs, nresults, 0)\<close>: like \<open>lua_call\<close>, but an error raised by the callee is
  caught: function and arguments are replaced by the error value, as it was raised (there
  is no message handler), and the status is not \<open>LUA_OK\<close>.
\<close>

definition lua_pcall :: "environment \<Rightarrow> lua_State \<Rightarrow> nat \<Rightarrow> nat \<Rightarrow> (status \<times> lua_State \<times> host_call list) exec" where
  "lua_pcall env L nargs nresults =
     (let st = stack L in
      if length st < Suc nargs then Faults InvalidStackIndex
      else
        let fpos = length st - Suc nargs;
            below = take fpos st;
            args = drop (Suc fpos) st
        in case (case st ! fpos of
                   LCFunction f \<Rightarrow> call_cfunction env f (L\<lparr>stack := args\<rparr>)
                 | v \<Rightarrow> (case call_value env v args (L\<lparr>stack := []\<rparr>) of
                           None \<Rightarrow> Diverges
                         | Some r \<Rightarrow> Returns r)) of
             Diverges \<Rightarrow> Diverges
           | Faults x \<Rightarrow> Faults x
           | Returns (Inl e, L1, hc) \<Rightarrow> Returns (LUA_ERRRUN, L1\<lparr>stack := below @ [e]\<rparr>, hc)
           | Returns (Inr rs, L1, hc) \<Rightarrow>
               Returns (LUA_OK, L1\<lparr>stack := below @ adjust nresults rs\<rparr>, hc))"

subsection \<open>start\<close>

text \<open>The loop of start over \<open>args[1 .. args_len - 1]\<close>.\<close>

function start_loop :: "lua_State \<Rightarrow> string list \<Rightarrow> nat \<Rightarrow> lua_State" where
  "start_loop L args i =
     (if i < length args
      then start_loop (lua_rawseti (push_glirc_string L (args ! i)) (- 2) 1) args (Suc i)
      else L)"
  by pat_completeness auto
termination
  by (relation "measure (\<lambda>(L, args, i). length args - i)") auto

declare start_loop.simps [simp del]

text \<open>
  The code after the label \<open>cleanup\<close>. \<open>err\<close> is a C string or a null pointer, and
  \<open>strlen\<close> of a null pointer is undefined behaviour.
\<close>

definition start_cleanup :: "glirc \<Rightarrow> string option \<Rightarrow> lua_State option \<Rightarrow> (lua_State option \<times> glirc) exec" where
  "start_cleanup G err L =
     (case err of
        None \<Rightarrow> Faults NullDereference
      | Some e \<Rightarrow>
          let G1 = glirc_print G ERROR_MESSAGE (Some e) (strlen e);
              G2 = (case L of None \<Rightarrow> G1 | Some L' \<Rightarrow> lua_close G1 L')
          in Returns (None, G2))"

definition start :: "environment \<Rightarrow> glirc \<Rightarrow> string \<Rightarrow> string list \<Rightarrow> (lua_State option \<times> glirc) exec" where
  "start env G path args =
     (if lua_extraspace env < sizeof_glirc_ptr env
      then start_cleanup G (Some ''Lua extraspace too small'') None
      else
        case luaL_newstate env of
          None \<Rightarrow> start_cleanup G (Some ''Failed to allocate Lua interpreter'') None
        | Some L0 \<Rightarrow>
            let L1 = L0\<lparr>extraspace := handle G\<rparr>;
                L2 = lua_pushcfunction L1 Initialize_lua;
                L3 = lua_createtable L2 (if length args > 1 then length args - 1 else 0) 1;
                L4 = start_loop L3 args 1;
                L5 = push_scriptname env L4 path args
            in (case lua_pcall env L5 2 0 of
                  Diverges \<Rightarrow> Diverges
                | Faults x \<Rightarrow> Faults x
                | Returns (res, L6, hc) \<Rightarrow>
                    if res \<noteq> LUA_OK
                    then (case lua_tostring L6 (- 1) of
                            (err, L7) \<Rightarrow> start_cleanup (reentries G hc) err (Some L7))
                    else Returns (Some L6, reentries G hc)))"

subsection \<open>Dispatch\<close>

definition callback :: "environment \<Rightarrow> glirc \<Rightarrow> lua_State \<Rightarrow> nat \<Rightarrow> (process_result \<times> lua_State \<times> glirc) exec" where
  "callback env G L nargs =
     (let L1 = lua_pushcfunction L Callback_worker;
          L2 = lua_insert L1 1
      in case lua_pcall env L2 (1 + nargs) 1 of
           Diverges \<Rightarrow> Diverges
         | Faults x \<Rightarrow> Faults x
         | Returns (res, L3, hc) \<Rightarrow>
             if res \<noteq> LUA_OK
             then (case lua_tolstring L3 (- 1) of
                     (msg, msglen, L4) \<Rightarrow>
                       let G1 = glirc_print (reentries G hc) ERROR_MESSAGE msg msglen;
                           L5 = lua_settop L4 0
                       in Returns (PASS_MESSAGE, L5, G1))
             else let res' = lua_toboolean L3 1;
                      L4 = lua_settop L3 0
                  in Returns (if res' then DROP_MESSAGE else PASS_MESSAGE, L4, reentries G hc))"

text \<open>
  The entry points. The instance \<open>L\<close> is \<open>None\<close> for a null pointer. \<open>stop_entrypoint\<close>
  releases the interpreter, so only the host is left afterwards.
\<close>

definition stop_entrypoint :: "environment \<Rightarrow> glirc \<Rightarrow> lua_State option \<Rightarrow> glirc exec" where
  "stop_entrypoint env G L =
     (case L of
        None \<Rightarrow> Returns G
      | Some L0 \<Rightarrow>
          (case callback env G (lua_pushliteral L0 ''stop'') 0 of
             Diverges \<Rightarrow> Diverges
           | Faults x \<Rightarrow> Faults x
           | Returns (_, L1, G1) \<Rightarrow> Returns (lua_close G1 L1)))"

definition message_entrypoint :: "environment \<Rightarrow> glirc \<Rightarrow> lua_State option \<Rightarrow> glirc_message
    \<Rightarrow> (process_result \<times> lua_State option \<times> glirc) exec" where
  "message_entrypoint env G L msg =
     (case L of
        None \<Rightarrow> Returns (PASS_MESSAGE, None, G)
      | Some L0 \<Rightarrow>
          (case callback env G (push_glirc_message (lua_pushliteral L0 ''process_message'') msg) 1 of
             Diverges \<Rightarrow> Diverges
           | Faults x \<Rightarrow> Faults x
           | Returns (r, L1, G1) \<Rightarrow> Returns (r, Some L1, G1)))"

definition chat_entrypoint :: "environment \<Rightarrow> glirc \<Rightarrow> lua_State option \<Rightarrow> glirc_chat
    \<Rightarrow> (process_result \<times> lua_State option \<times> glirc) exec" where
  "chat_entrypoint env G L chat =
     (case L of
        None \<Rightarrow> Returns (PASS_MESSAGE, None, G)
      | Some L0 \<Rightarrow>
          (case callback env G (push_glirc_chat (lua_pushliteral L0 ''process_chat'') chat) 1 of
             Diverges \<Rightarrow> Diverges
           | Faults x \<Rightarrow> Faults x
           | Returns (r, L1, G1) \<Rightarrow> Returns (r, Some L1, G1)))"

definition command_entrypoint :: "environment \<Rightarrow> glirc \<Rightarrow> lua_State option \<Rightarrow> glirc_command
    \<Rightarrow> (lua_State option \<times> glirc) exec" where
  "command_entrypoint env G L cmd =
     (case L of
        None \<Rightarrow> Returns (None, G)
      | Some L0 \<Rightarrow>
          (case callback env G (push_glirc_command (lua_pushliteral L0 ''process_command'') cmd) 1 of
             Diverges \<Rightarrow> Diverges
           | Faults x \<Rightarrow> Faults x
           | Returns (_, L1, G1) \<Rightarrow> Returns (Some L1, G1)))"

subsection \<open>The host's side\<close>

text \<open>
  The host calls the entry points of one instance one after the other (spec, section 5).
  After stop the instance is gone.
\<close>

datatype event = Message glirc_message | Command glirc_command | Chat glirc_chat | Stop

fun dispatch :: "environment \<Rightarrow> glirc \<Rightarrow> lua_State option \<Rightarrow> event
    \<Rightarrow> (lua_State option \<times> glirc) exec" where
  "dispatch env G L (Message msg) =
     (case message_entrypoint env G L msg of
        Returns (_, L1, G1) \<Rightarrow> Returns (L1, G1) | Diverges \<Rightarrow> Diverges | Faults x \<Rightarrow> Faults x)"
| "dispatch env G L (Command cmd) = command_entrypoint env G L cmd"
| "dispatch env G L (Chat chat) =
     (case chat_entrypoint env G L chat of
        Returns (_, L1, G1) \<Rightarrow> Returns (L1, G1) | Diverges \<Rightarrow> Diverges | Faults x \<Rightarrow> Faults x)"
| "dispatch env G L Stop =
     (case stop_entrypoint env G L of
        Returns G1 \<Rightarrow> Returns (None, G1) | Diverges \<Rightarrow> Diverges | Faults x \<Rightarrow> Faults x)"

fun dispatch_all :: "environment \<Rightarrow> glirc \<Rightarrow> lua_State option \<Rightarrow> event list
    \<Rightarrow> (lua_State option \<times> glirc) exec" where
  "dispatch_all env G L [] = Returns (L, G)"
| "dispatch_all env G L (ev # evs) =
     (case dispatch env G L ev of
        Returns (L1, G1) \<Rightarrow> dispatch_all env G1 L1 evs
      | Diverges \<Rightarrow> Diverges
      | Faults x \<Rightarrow> Faults x)"

subsection \<open>Notions used to state the properties\<close>

fun returned :: "'a exec \<Rightarrow> 'a option" where
  "returned (Returns x) = Some x"
| "returned Diverges = None"
| "returned (Faults _) = None"

text \<open>The one value a call with one result delivers: the first result, or nil.\<close>

fun result1 :: "lua_value list \<Rightarrow> lua_value" where
  "result1 [] = LNil"
| "result1 (v # _) = v"

fun is_print :: "effect \<Rightarrow> bool" where
  "is_print (Print _ _ _) = True"
| "is_print _ = False"

text \<open>No diagnostic is printed once the interpreter has been closed.\<close>

fun prints_before_close :: "effect list \<Rightarrow> bool" where
  "prints_before_close [] = True"
| "prints_before_close (Close # es) = (list_all (\<lambda>e. \<not> is_print e) es \<and> prints_before_close es)"
| "prints_before_close (_ # es) = prints_before_close es"

subsection \<open>A sample environment\<close>

text \<open>
  A small world to run the code in: seven Lua functions, three files, a 64-bit build.
  \<^item> function 0 is the chunk \<^verbatim>\<open>return arg\<close>, function 1 the chunk \<^verbatim>\<open>return 42\<close>;
  \<^item> function 2 is \<^verbatim>\<open>function(self, ev) return true end\<close>;
  \<^item> function 3 is \<^verbatim>\<open>function(self, ev) error("boom", 0) end\<close>;
  \<^item> function 4 is \<^verbatim>\<open>function(self, ev) error(self) end\<close>, whose error value is a table;
  \<^item> function 5 is \<^verbatim>\<open>function(self, ev) glirc.print("seen") end\<close>;
  \<^item> function 6 is \<^verbatim>\<open>function(self, ev) while true do end end\<close>;
  \<^item> calling anything else raises.

  Indexing a value that does not settle the lookup by itself raises, as Lua does for a
  value without an indexing metamethod.
\<close>

definition sample_call :: "lua_value \<Rightarrow> lua_value list \<Rightarrow> lua_State
    \<Rightarrow> ((lua_value + lua_value list) \<times> lua_State \<times> host_call list) option" where
  "sample_call f args L =
     (if f = LFunction 0 then Some (Inr [globals L ''arg''], L, [])
      else if f = LFunction 1 then Some (Inr [LNumber 42], L, [])
      else if f = LFunction 2 then Some (Inr [LBoolean True], L, [])
      else if f = LFunction 3 then Some (Inl (LString ''boom''), L, [])
      else if f = LFunction 4 then Some (Inl (result1 args), L, [])
      else if f = LFunction 5 then Some (Inr [], L, [HostCall ''print'' [''seen'']])
      else if f = LFunction 6 then None
      else Some (Inl (LString ''attempt to call a value that is not a function''), L, []))"

definition sample_loadfile :: "string \<Rightarrow> string + lua_value" where
  "sample_loadfile p =
     (if p = ''/usr/lib/glirc.lua'' then Inr (LFunction 1)
      else if p = ''/home/user/args.lua'' then Inr (LFunction 0)
      else Inl (''cannot open '' @ p))"

text \<open>The directory part of a path that has no trailing slash.\<close>

definition sample_dirname :: "string \<Rightarrow> string" where
  "sample_dirname p =
     (if CHR ''/'' \<notin> set p then ''.''
      else let d = rev (tl (dropWhile (\<lambda>c. c \<noteq> CHR ''/'') (rev p)))
           in if d = [] then ''/'' else d)"

definition sample_env :: environment where
  "sample_env =
     \<lparr>lua_extraspace = 8, sizeof_glirc_ptr = 8, newstate_fails = False, version_error = None,
      loadfile = sample_loadfile, openlibs = (\<lambda>L. L), install_lib = (\<lambda>L. L),
      call_value = sample_call,
      index_event = (\<lambda>t k L. Some (Inl (LString (''attempt to index a ''
                       @ lua_typename (type_of_value t) @ '' value'')), L, [])),
      dirname = sample_dirname, resolve_path = (\<lambda>h p. ''/home/user/'' @ p)\<rparr>"

definition sample_host :: glirc where
  "sample_host = \<lparr>handle = 7, trace = []\<rparr>"

text \<open>
  A running instance whose script returned a table with \<open>process_message\<close>, \<open>process_chat\<close>
  and \<open>process_command\<close>, and no \<open>stop\<close>.
\<close>

definition sample_instance :: lua_State where
  "sample_instance =
     \<lparr>stack = [],
      registry = (\<lambda>_. LNil)(LLightUserdata Glirc_callback_module_key := LTable 0),
      globals = (\<lambda>_. LNil),
      heap = [\<lparr>entries = table_of
                 [(LString ''process_message'', LFunction 2),
                  (LString ''process_chat'', LFunction 5),
                  (LString ''process_command'', LFunction 3)],
               metatable = None\<rparr>],
      extraspace = 7\<rparr>"

text \<open>A running instance all of whose callbacks raise; \<open>process_chat\<close> raises a table.\<close>

definition faulty_instance :: lua_State where
  "faulty_instance =
     \<lparr>stack = [],
      registry = (\<lambda>_. LNil)(LLightUserdata Glirc_callback_module_key := LTable 0),
      globals = (\<lambda>_. LNil),
      heap = [\<lparr>entries = table_of
                 [(LString ''process_message'', LFunction 3),
                  (LString ''process_chat'', LFunction 4),
                  (LString ''process_command'', LFunction 3),
                  (LString ''stop'', LFunction 3)],
               metatable = None\<rparr>],
      extraspace = 7\<rparr>"

text \<open>
  The instance that start returns for the script \<^verbatim>\<open>return 42\<close>: the callback-module slot
  holds a number.
\<close>

definition number_instance :: lua_State where
  "number_instance =
     \<lparr>stack = [],
      registry = (\<lambda>_. LNil)(LLightUserdata Glirc_callback_module_key := LNumber 42),
      globals = (\<lambda>_. LNil)(''arg'' := LTable 0),
      heap = [\<lparr>entries = (\<lambda>_. LNil)(LNumber 0 := LString ''/usr/lib/glirc.lua''),
               metatable = None\<rparr>],
      extraspace = 7\<rparr>"

text \<open>A running instance whose script returned an empty table.\<close>

definition bare_instance :: lua_State where
  "bare_instance =
     \<lparr>stack = [],
      registry = (\<lambda>_. LNil)(LLightUserdata Glirc_callback_module_key := LTable 0),
      globals = (\<lambda>_. LNil),
      heap = [\<lparr>entries = (\<lambda>_. LNil), metatable = None\<rparr>],
      extraspace = 7\<rparr>"

definition sample_message :: glirc_message where
  "sample_message =
     \<lparr>msg_tags = [(''time'', ''123'')], msg_network = ''freenode'',
      msg_prefix_nick = Some ''alice'', msg_prefix_user = None, msg_prefix_host = None,
      msg_command = ''PRIVMSG'', msg_params = [''#chan'', ''hi'']\<rparr>"

definition sample_chat :: glirc_chat where
  "sample_chat = \<lparr>chat_network = ''freenode'', chat_target = ''#chan'', chat_message = ''hi''\<rparr>"

definition sample_command :: glirc_command where
  "sample_command = \<lparr>cmd_command = ''reload''\<rparr>"

section \<open>Facts about the model\<close>

subsection \<open>Stack indices and results\<close>

lemma adjust_one: "adjust (Suc 0) rs = [result1 rs]"
  by (cases rs) (simp_all add: adjust_def)

lemma type_nil_iff: "(type_of_value v = LUA_TNIL) = (v = LNil)"
  by (cases v) simp_all

lemma nat_int_Suc: "nat (int n + 1) = Suc n"
  by simp

lemma index2value_last: "stack L = xs @ [v] \<Longrightarrow> index2value L (- 1) = v"
  by (simp add: index2value_def valid_index_def absindex_def nat_int_Suc)

lemma reentries_Nil: "reentries G [] = G"
  by (simp add: reentries_def)

lemma stack_settop_0: "stack (lua_settop L 0) = []"
  by (simp add: lua_settop_def)

lemma lua_tostring_top:
  "lua_tostring (S\<lparr>stack := [e]\<rparr>) (- 1) =
     (map_option c_str (tostring_value e),
      case tostring_value e of None \<Rightarrow> S\<lparr>stack := [e]\<rparr> | Some m \<Rightarrow> S\<lparr>stack := [LString m]\<rparr>)"
  by (simp add: lua_tostring_def lua_tolstring_def index2value_def valid_index_def absindex_def
        split: option.splits)

subsection \<open>Marshaling leaves the registry and the older tables alone\<close>

lemma lua_pushliteral_fields:
  "stack (lua_pushliteral L s) = stack L @ [LString s]"
  "registry (lua_pushliteral L s) = registry L"
  "heap (lua_pushliteral L s) = heap L"
  by (simp_all add: lua_pushliteral_def push_def)

lemma push_glirc_message_stack:
  "stack (push_glirc_message L msg) = stack L @ [LTable (length (heap L) + 3)]"
  by (simp add: push_glirc_message_def new_table_def push_def Let_def)

lemma push_glirc_message_registry:
  "registry (push_glirc_message L msg) = registry L"
  by (simp add: push_glirc_message_def new_table_def push_def Let_def)

lemma push_glirc_message_heap:
  "r < length (heap L) \<Longrightarrow> heap (push_glirc_message L msg) ! r = heap L ! r"
  "length (heap (push_glirc_message L msg)) = length (heap L) + 4"
  by (simp_all add: push_glirc_message_def new_table_def push_def Let_def nth_append)

lemma push_glirc_chat_stack:
  "stack (push_glirc_chat L chat) = stack L @ [LTable (length (heap L))]"
  by (simp add: push_glirc_chat_def new_table_def push_def Let_def)

lemma push_glirc_chat_registry:
  "registry (push_glirc_chat L chat) = registry L"
  by (simp add: push_glirc_chat_def new_table_def push_def Let_def)

lemma push_glirc_chat_heap:
  "r < length (heap L) \<Longrightarrow> heap (push_glirc_chat L chat) ! r = heap L ! r"
  "length (heap (push_glirc_chat L chat)) = length (heap L) + 1"
  by (simp_all add: push_glirc_chat_def new_table_def push_def Let_def nth_append)

lemma push_glirc_command_stack:
  "stack (push_glirc_command L cmd) = stack L @ [LTable (length (heap L))]"
  by (simp add: push_glirc_command_def new_table_def push_def Let_def)

lemma push_glirc_command_registry:
  "registry (push_glirc_command L cmd) = registry L"
  by (simp add: push_glirc_command_def new_table_def push_def Let_def)

lemma push_glirc_command_heap:
  "r < length (heap L) \<Longrightarrow> heap (push_glirc_command L cmd) ! r = heap L ! r"
  "length (heap (push_glirc_command L cmd)) = length (heap L) + 1"
  by (simp_all add: push_glirc_command_def new_table_def push_def Let_def nth_append)

subsection \<open>What start computes\<close>

text \<open>
  The loop stores every argument under the same key 1: after it the table holds the last
  argument there, and nothing else.
\<close>

lemma start_loop_table:
  assumes "stack L = [f, LTable 0]" and "heap L = [t]"
  shows "start_loop L args i =
           L\<lparr>heap := [t\<lparr>entries := (if i < length args
                                       then (entries t)(LNumber 1 := LString (last args))
                                       else entries t)\<rparr>]\<rparr>"
  using assms
proof (induction L args i arbitrary: t rule: start_loop.induct)
  case (1 L args i)
  show ?case
  proof (cases "i < length args")
    case False
    then have "start_loop L args i = L"
      by (subst start_loop.simps) simp
    moreover have "L\<lparr>heap := [t]\<rparr> = L"
      using "1.prems"(2) by (cases L) simp
    ultimately show ?thesis
      using False by simp
  next
    case True
    let ?L' = "lua_rawseti (push_glirc_string L (args ! i)) (- 2) 1"
    have L': "?L' = L\<lparr>heap := [t\<lparr>entries := (entries t)(LNumber 1 := LString (args ! i))\<rparr>]\<rparr>"
      using "1.prems"
      by (simp add: lua_rawseti_def push_glirc_string_def push_def pop_def index2value_def
            valid_index_def absindex_def)
    have st: "stack ?L' = [f, LTable 0]"
      and hp: "heap ?L' = [t\<lparr>entries := (entries t)(LNumber 1 := LString (args ! i))\<rparr>]"
      using "1.prems" by (simp_all add: L')
    have step: "start_loop L args i = start_loop ?L' args (Suc i)"
      using True by (subst start_loop.simps) simp
    let ?t' = "t\<lparr>entries := (entries t)(LNumber 1 := LString (args ! i))\<rparr>"
    have over: "?t'\<lparr>entries := (entries ?t')(LNumber 1 := v)\<rparr> = t\<lparr>entries := (entries t)(LNumber 1 := v)\<rparr>" for v
      by simp
    have keep: "?t'\<lparr>entries := entries ?t'\<rparr> = ?t'"
      by simp
    have outer: "?L'\<lparr>heap := H\<rparr> = L\<lparr>heap := H\<rparr>" for H
      by (simp add: L')
    have IH: "start_loop ?L' args (Suc i) =
        L\<lparr>heap := [?t'\<lparr>entries := (if Suc i < length args
                          then (entries ?t')(LNumber 1 := LString (last args))
                          else entries ?t')\<rparr>]\<rparr>"
      unfolding "1.IH" [OF True st hp] outer ..
    show ?thesis
    proof (cases "Suc i < length args")
      case more: True
      have "start_loop L args i = L\<lparr>heap := [t\<lparr>entries := (entries t)(LNumber 1 := LString (last args))\<rparr>]\<rparr>"
        unfolding step IH if_P [OF more] over ..
      then show ?thesis
        unfolding if_P [OF True] .
    next
      case last: False
      with True have "i = length args - 1" and "args \<noteq> []"
        by auto
      then have eq: "args ! i = last args"
        by (simp add: last_conv_nth)
      have "start_loop L args i = L\<lparr>heap := [?t']\<rparr>"
        unfolding step IH if_not_P [OF last] keep ..
      then show ?thesis
        unfolding if_P [OF True] eq .
    qed
  qed
qed

text \<open>With a table and a string as its two arguments, \<open>initialize_lua\<close> loads and runs the script.\<close>

lemma initialize_lua_run:
  assumes st: "stack F = [LTable r, LString p]" and ref: "r < length (heap F)"
    and ver: "version_error env = None"
  shows "initialize_lua env F =
     (case loadfile env (c_str p) of
        Inl msg \<Rightarrow> Returns (Inl (LString msg), push F (LString msg), [])
      | Inr chunk \<Rightarrow>
          (case call_value env chunk []
                  ((glirc_install_lib env (luaL_openlibs env
                      (F\<lparr>stack := [chunk],
                         globals := (globals F)(''arg'' := LTable r),
                         heap := (heap F)[r := (heap F ! r)
                            \<lparr>entries := (entries (heap F ! r))(LNumber 0 := LString p)\<rparr>]\<rparr>)))
                    \<lparr>stack := []\<rparr>) of
             None \<Rightarrow> Diverges
           | Some (Inl e, S, hc) \<Rightarrow> Returns (Inl e, S\<lparr>stack := []\<rparr>, hc)
           | Some (Inr vs, S, hc) \<Rightarrow>
               Returns (Inr 0,
                 S\<lparr>stack := [],
                   registry := (registry S)(LLightUserdata Glirc_callback_module_key := result1 vs)\<rparr>,
                 hc)))"
proof -
  have same: "F\<lparr>stack := [LTable r, LString p]\<rparr> = F"
    using st by (cases F) simp
  have chk: "luaL_checktype F 1 LUA_TTABLE = None"
    "luaL_checkstring F 2 = Inr (c_str p, F)"
    "luaL_checktype F 3 LUA_TNONE = None"
    using st
    by (simp_all add: luaL_checktype_def luaL_checkstring_def lua_type_def lua_tolstring_def
          index2value_def valid_index_def absindex_def same)
  show ?thesis
  proof (cases "loadfile env (c_str p)")
    case (Inl msg)
    then show ?thesis
      using st
      by (simp add: initialize_lua_def ver chk luaL_loadfile_def push_def index2value_def
            valid_index_def absindex_def)
  next
    case (Inr chunk)
    have pre: "lua_setglobal (lua_rawseti (lua_insert (push F chunk) 1) (- 2) 0) ''arg'' =
        F\<lparr>stack := [chunk],
          globals := (globals F)(''arg'' := LTable r),
          heap := (heap F)[r := (heap F ! r)
             \<lparr>entries := (entries (heap F ! r))(LNumber 0 := LString p)\<rparr>]\<rparr>"
      using st ref
      by (simp add: push_def lua_insert_def lua_rotate_def lua_rawseti_def lua_setglobal_def pop_def
            index2value_def valid_index_def absindex_def)
    show ?thesis
      by (simp add: initialize_lua_def ver chk luaL_loadfile_def Inr pre Let_def lua_call_def
            luaL_openlibs_def glirc_install_lib_def adjust_one lua_rawsetp_def pop_def
            split: option.splits sum.splits prod.splits)
  qed
qed

lemma start_pcall_state:
  assumes "\<not> newstate_fails env"
  shows "\<exists>L0. luaL_newstate env = Some L0 \<and>
     push_scriptname env
       (start_loop (lua_createtable (lua_pushcfunction (L0\<lparr>extraspace := h\<rparr>) Initialize_lua) n 1)
          args 1) path args =
     \<lparr>stack = [LCFunction Initialize_lua, LTable 0,
               LString (if args = [] then dirname env path @ ''/glirc.lua''
                        else resolve_path env h (args ! 0))],
      registry = (\<lambda>_. LNil), globals = (\<lambda>_. LNil),
      heap = [\<lparr>entries = (if 1 < length args
                            then (\<lambda>_. LNil)(LNumber 1 := LString (last args))
                            else (\<lambda>_. LNil)),
               metatable = None\<rparr>],
      extraspace = h\<rparr>"
proof -
  let ?L3 = "lua_createtable (lua_pushcfunction
     (\<lparr>stack = [], registry = (\<lambda>_. LNil), globals = (\<lambda>_. LNil), heap = [], extraspace = 0\<rparr>
        \<lparr>extraspace := h\<rparr>) Initialize_lua) n 1"
  have st: "stack ?L3 = [LCFunction Initialize_lua, LTable 0]"
    and hp: "heap ?L3 = [\<lparr>entries = (\<lambda>_. LNil), metatable = None\<rparr>]"
    by (simp_all add: lua_createtable_def lua_pushcfunction_def push_def)
  have loop: "start_loop ?L3 args 1 =
      ?L3\<lparr>heap := [\<lparr>entries = (\<lambda>_. LNil), metatable = None\<rparr>
          \<lparr>entries := (if 1 < length args
                         then (entries \<lparr>entries = (\<lambda>_. LNil), metatable = None\<rparr>)
                                (LNumber 1 := LString (last args))
                         else entries \<lparr>entries = (\<lambda>_. LNil), metatable = None\<rparr>)\<rparr>]\<rparr>"
    by (rule start_loop_table [OF st hp])
  show ?thesis
    apply (rule exI [of _ "\<lparr>stack = [], registry = (\<lambda>_. LNil), globals = (\<lambda>_. LNil), heap = [],
       extraspace = 0\<rparr>"])
    apply (rule conjI)
     apply (simp add: luaL_newstate_def assms)
    apply (subst loop)
    apply (cases "args = []")
     apply (simp_all add: push_scriptname_def push_def lua_pushstring_def get_glirc_def
        lua_createtable_def lua_pushcfunction_def)
    done
qed

text \<open>
  start as a function of the environment: the build, the allocator, the library version,
  the loader and the script decide in this order.
\<close>

lemma start_eq:
  fixes env G path args
  defines "P \<equiv> (if args = [] then dirname env path @ ''/glirc.lua''
                  else resolve_path env (handle G) (args ! 0))"
  defines "F \<equiv> \<lparr>stack = [LTable 0, LString P],
      registry = (\<lambda>_. LNil), globals = (\<lambda>_. LNil),
      heap = [\<lparr>entries = (if 1 < length args
                            then (\<lambda>_. LNil)(LNumber 1 := LString (last args))
                            else (\<lambda>_. LNil)),
               metatable = None\<rparr>],
      extraspace = handle G\<rparr>"
  shows "start env G path args =
    (if lua_extraspace env < sizeof_glirc_ptr env
     then Returns (None, G\<lparr>trace := trace G @
            [Print ERROR_MESSAGE (Some ''Lua extraspace too small'') 24]\<rparr>)
     else if newstate_fails env
     then Returns (None, G\<lparr>trace := trace G @
            [Print ERROR_MESSAGE (Some ''Failed to allocate Lua interpreter'') 34]\<rparr>)
     else case version_error env of
       Some m \<Rightarrow> Returns (None, G\<lparr>trace := trace G @
            [Print ERROR_MESSAGE (Some (c_str m)) (length (c_str m)), Close]\<rparr>)
     | None \<Rightarrow>
      (case loadfile env (c_str P) of
         Inl msg \<Rightarrow> Returns (None, G\<lparr>trace := trace G @
            [Print ERROR_MESSAGE (Some (c_str msg)) (length (c_str msg)), Close]\<rparr>)
       | Inr chunk \<Rightarrow>
          (case call_value env chunk []
                  ((glirc_install_lib env (luaL_openlibs env
                      (F\<lparr>stack := [chunk],
                         globals := (globals F)(''arg'' := LTable 0),
                         heap := (heap F)[0 := (heap F ! 0)
                            \<lparr>entries := (entries (heap F ! 0))(LNumber 0 := LString P)\<rparr>]\<rparr>)))
                    \<lparr>stack := []\<rparr>) of
             None \<Rightarrow> Diverges
           | Some (Inl e, S, hc) \<Rightarrow>
               (case tostring_value e of
                  None \<Rightarrow> Faults NullDereference
                | Some m \<Rightarrow> Returns (None, G\<lparr>trace := trace G @ map Reentry hc @
                    [Print ERROR_MESSAGE (Some (c_str m)) (length (c_str m)), Close]\<rparr>))
           | Some (Inr vs, S, hc) \<Rightarrow>
               Returns (Some (S\<lparr>stack := [],
                   registry := (registry S)(LLightUserdata Glirc_callback_module_key := result1 vs)\<rparr>),
                 G\<lparr>trace := trace G @ map Reentry hc\<rparr>))))"
proof (cases "lua_extraspace env < sizeof_glirc_ptr env \<or> newstate_fails env")
  case True
  then show ?thesis
    by (auto simp: start_def luaL_newstate_def start_cleanup_def glirc_print_def strlen_def)
next
  case False
  then have build: "\<not> lua_extraspace env < sizeof_glirc_ptr env" "\<not> newstate_fails env"
    by simp_all
  obtain L0 where L0: "luaL_newstate env = Some L0"
    and pre: "push_scriptname env
       (start_loop (lua_createtable (lua_pushcfunction (L0\<lparr>extraspace := handle G\<rparr>) Initialize_lua)
           (if length args > 1 then length args - 1 else 0) 1) args 1) path args =
       F\<lparr>stack := [LCFunction Initialize_lua, LTable 0, LString P]\<rparr>"
    using start_pcall_state [OF build(2), of "handle G" "if length args > 1 then length args - 1 else 0" args path]
    unfolding F_def P_def by auto
  have Fst: "stack F = [LTable 0, LString P]" and Fhp: "0 < length (heap F)"
    by (simp_all add: F_def)
  have frame: "F\<lparr>stack := [LTable 0, LString P]\<rparr> = F"
    by (simp add: F_def)
  have pcall: "lua_pcall env (F\<lparr>stack := [LCFunction Initialize_lua, LTable 0, LString P]\<rparr>) 2 0 =
     (case initialize_lua env F of
        Diverges \<Rightarrow> Diverges
      | Faults x \<Rightarrow> Faults x
      | Returns (Inl e, L1, hc) \<Rightarrow> Returns (LUA_ERRRUN, L1\<lparr>stack := [e]\<rparr>, hc)
      | Returns (Inr n, L1, hc) \<Rightarrow> Returns (LUA_OK, L1\<lparr>stack := []\<rparr>, hc))"
    by (simp add: lua_pcall_def call_cfunction_def frame adjust_def numeral_2_eq_2
          split: exec.splits prod.splits sum.splits)
  have st: "start env G path args =
     (case lua_pcall env (F\<lparr>stack := [LCFunction Initialize_lua, LTable 0, LString P]\<rparr>) 2 0 of
        Diverges \<Rightarrow> Diverges
      | Faults x \<Rightarrow> Faults x
      | Returns (res, L6, hc) \<Rightarrow>
          if res \<noteq> LUA_OK
          then (case lua_tostring L6 (- 1) of
                  (err, L7) \<Rightarrow> start_cleanup (reentries G hc) err (Some L7))
          else Returns (Some L6, reentries G hc))"
    by (simp only: start_def L0 Let_def option.case build if_False pre)
  show ?thesis
  proof (cases "version_error env")
    case (Some m)
    then have "initialize_lua env F = Returns (Inl (LString m), F, [])"
      by (simp add: initialize_lua_def)
    then show ?thesis
      using build Some
      by (simp add: st pcall lua_tostring_top start_cleanup_def glirc_print_def lua_close_def
            reentries_def strlen_def)
  next
    case None
    note run = initialize_lua_run [OF Fst Fhp None]
    show ?thesis
    proof (cases "loadfile env (c_str P)")
      case (Inl msg)
      then show ?thesis
        using build None
        by (simp add: st pcall run lua_tostring_top start_cleanup_def glirc_print_def lua_close_def
              reentries_def strlen_def)
    next
      case (Inr chunk)
      show ?thesis
        using build None
        by (simp add: st pcall run Inr lua_tostring_top start_cleanup_def glirc_print_def
              lua_close_def reentries_def strlen_def
              split: option.splits sum.splits prod.splits)
    qed
  qed
qed

text \<open>
  The two outcomes of the loader, on a build that reaches it: \<open>P\<close> is the script path
  and \<open>S0\<close> the state in which the loaded chunk is called.
\<close>

lemma start_load_error:
  assumes build: "\<not> lua_extraspace env < sizeof_glirc_ptr env" "\<not> newstate_fails env"
      "version_error env = None"
    and P: "P = (if args = [] then dirname env path @ ''/glirc.lua''
                 else resolve_path env (handle G) (args ! 0))"
    and load: "loadfile env (c_str P) = Inl msg"
  shows "start env G path args =
     Returns (None, G\<lparr>trace := trace G @
       [Print ERROR_MESSAGE (Some (c_str msg)) (length (c_str msg)), Close]\<rparr>)"
proof -
  note eq = start_eq [of env G path args, folded P]
  show ?thesis
    using build load by (simp add: eq)
qed

lemma start_loaded:
  assumes build: "\<not> lua_extraspace env < sizeof_glirc_ptr env" "\<not> newstate_fails env"
      "version_error env = None"
    and P: "P = (if args = [] then dirname env path @ ''/glirc.lua''
                 else resolve_path env (handle G) (args ! 0))"
    and load: "loadfile env (c_str P) = Inr chunk"
    and S0: "S0 = (glirc_install_lib env (luaL_openlibs env
               \<lparr>stack = [chunk], registry = (\<lambda>_. LNil),
                globals = (\<lambda>_. LNil)(''arg'' := LTable 0),
                heap = [\<lparr>entries = (if 1 < length args
                                      then (\<lambda>_. LNil)(LNumber 1 := LString (last args))
                                      else (\<lambda>_. LNil))(LNumber 0 := LString P),
                         metatable = None\<rparr>],
                extraspace = handle G\<rparr>))\<lparr>stack := []\<rparr>"
  shows "start env G path args =
     (case call_value env chunk [] S0 of
        None \<Rightarrow> Diverges
      | Some (Inl e, S, hc) \<Rightarrow>
          (case tostring_value e of
             None \<Rightarrow> Faults NullDereference
           | Some m \<Rightarrow> Returns (None, G\<lparr>trace := trace G @ map Reentry hc @
               [Print ERROR_MESSAGE (Some (c_str m)) (length (c_str m)), Close]\<rparr>))
      | Some (Inr vs, S, hc) \<Rightarrow>
          Returns (Some (S\<lparr>stack := [],
              registry := (registry S)(LLightUserdata Glirc_callback_module_key := result1 vs)\<rparr>),
            G\<lparr>trace := trace G @ map Reentry hc\<rparr>))"
proof -
  note eq = start_eq [of env G path args, folded P]
  show ?thesis
    unfolding S0 using build load by (simp add: eq)
qed

subsection \<open>What a dispatch computes\<close>

text \<open>The worker on a callback table (without indexing metamethod) that has the callback, and on one that has not.\<close>

lemma callback_worker_present:
  assumes "stack L = LString name # args"
    and "registry L (LLightUserdata Glirc_callback_module_key) = LTable r"
    and "r < length (heap L)"
    and "entries (heap L ! r) (LString name) = cb" and "cb \<noteq> LNil"
  shows "callback_worker env L =
           (case call_value env cb (LTable r # args) (L\<lparr>stack := []\<rparr>) of
              None \<Rightarrow> Diverges
            | Some (Inl e, L1, hc) \<Rightarrow> Returns (Inl e, L1\<lparr>stack := []\<rparr>, hc)
            | Some (Inr rs, L1, hc) \<Rightarrow> Returns (Inr 1, L1\<lparr>stack := [result1 rs]\<rparr>, hc))"
  using assms
  apply (simp add: callback_worker_def Let_def lua_gettop_def lua_rawgetp_def push_def lua_insert_def
    lua_rotate_def absindex_def valid_index_def lua_gettable_def index2value_def pop_def index_raw_def
    lua_call_def adjust_one type_nil_iff nth_append split: option.splits sum.splits prod.splits)
  done

lemma callback_worker_absent:
  assumes "stack L = LString name # args"
    and "registry L (LLightUserdata Glirc_callback_module_key) = LTable r"
    and "r < length (heap L)"
    and "entries (heap L ! r) (LString name) = LNil" and "metatable (heap L ! r) = None"
  shows "callback_worker env L = Returns (Inr 1, L\<lparr>stack := LTable r # args @ [LNil]\<rparr>, [])"
  using assms
  by (simp add: callback_worker_def Let_def lua_gettop_def lua_rawgetp_def push_def lua_insert_def
    lua_rotate_def absindex_def valid_index_def lua_gettable_def index2value_def pop_def index_raw_def)

text \<open>\<open>callback\<close> on a stack that holds the event name and its arguments, and nothing else.\<close>

lemma callback_frame:
  assumes "stack L = LString name # args" and "length args = nargs"
  shows "callback env G L nargs =
     (case callback_worker env L of
        Diverges \<Rightarrow> Diverges
      | Faults x \<Rightarrow> Faults x
      | Returns (Inl e, L1, hc) \<Rightarrow>
          Returns (PASS_MESSAGE, L1\<lparr>stack := []\<rparr>,
                   glirc_print (reentries G hc) ERROR_MESSAGE (tostring_value e)
                     (case tostring_value e of None \<Rightarrow> 0 | Some s \<Rightarrow> length s))
      | Returns (Inr n, L1, hc) \<Rightarrow>
          Returns (if truthy (result1 (drop (length (stack L1) - n) (stack L1)))
                   then DROP_MESSAGE else PASS_MESSAGE,
                   L1\<lparr>stack := []\<rparr>, reentries G hc))"
proof -
  have same: "L\<lparr>stack := LString name # args\<rparr> = L"
    using assms(1) by (cases L) simp
  have pc: "lua_pcall env (lua_insert (lua_pushcfunction L Callback_worker) 1) (Suc nargs) (Suc 0) =
     (case callback_worker env L of
        Diverges \<Rightarrow> Diverges
      | Faults x \<Rightarrow> Faults x
      | Returns (Inl e, L1, hc) \<Rightarrow> Returns (LUA_ERRRUN, L1\<lparr>stack := [e]\<rparr>, hc)
      | Returns (Inr n, L1, hc) \<Rightarrow>
          Returns (LUA_OK, L1\<lparr>stack := [result1 (drop (length (stack L1) - n) (stack L1))]\<rparr>, hc))"
    using assms
    by (simp add: Let_def lua_pushcfunction_def push_def lua_insert_def
      lua_rotate_def absindex_def valid_index_def lua_pcall_def call_cfunction_def same adjust_one
      split: exec.splits prod.splits sum.splits)
  show ?thesis
  proof (cases "callback_worker env L")
    case (Returns x)
    obtain res L1 hc where x: "x = (res, L1, hc)"
      by (cases x)
    show ?thesis
    proof (cases res)
      case (Inl e)
      then show ?thesis
        by (cases "tostring_value e")
           (simp_all add: callback_def Let_def pc Returns x lua_tolstring_def lua_settop_def
              index2value_def absindex_def valid_index_def)
    next
      case (Inr n)
      then show ?thesis
        by (simp add: callback_def Let_def pc Returns x lua_toboolean_def lua_settop_def
              index2value_def absindex_def valid_index_def)
    qed
  qed (simp_all add: callback_def Let_def pc)
qed

lemma callback_present:
  assumes "stack L = LString name # args" and "length args = nargs"
    and "registry L (LLightUserdata Glirc_callback_module_key) = LTable r"
    and "r < length (heap L)"
    and "entries (heap L ! r) (LString name) = cb" and "cb \<noteq> LNil"
  shows "callback env G L nargs =
     (case call_value env cb (LTable r # args) (L\<lparr>stack := []\<rparr>) of
        None \<Rightarrow> Diverges
      | Some (Inl e, L1, hc) \<Rightarrow>
          Returns (PASS_MESSAGE, L1\<lparr>stack := []\<rparr>,
                   glirc_print (reentries G hc) ERROR_MESSAGE (tostring_value e)
                     (case tostring_value e of None \<Rightarrow> 0 | Some s \<Rightarrow> length s))
      | Some (Inr rs, L1, hc) \<Rightarrow>
          Returns (if truthy (result1 rs) then DROP_MESSAGE else PASS_MESSAGE,
                   L1\<lparr>stack := []\<rparr>, reentries G hc))"
  unfolding callback_frame [OF assms(1,2)] callback_worker_present [OF assms(1,3,4,5,6)]
  by (simp split: option.splits prod.splits sum.splits)

lemma callback_absent:
  assumes "stack L = LString name # args" and "length args = nargs"
    and "registry L (LLightUserdata Glirc_callback_module_key) = LTable r"
    and "r < length (heap L)"
    and "entries (heap L ! r) (LString name) = LNil" and "metatable (heap L ! r) = None"
  shows "callback env G L nargs = Returns (PASS_MESSAGE, L\<lparr>stack := []\<rparr>, G)"
  unfolding callback_frame [OF assms(1,2)] callback_worker_absent [OF assms(1,3,4,5,6)]
  by (simp add: reentries_Nil)

lemma callback_stack_empty:
  "callback env G L nargs = Returns (r, L', G') \<Longrightarrow> stack L' = []"
  by (auto simp: callback_def Let_def stack_settop_0 split: exec.splits prod.splits if_splits)

subsection \<open>What the host sees\<close>

lemma prints_before_close_no_close:
  "Close \<notin> set es \<Longrightarrow> prints_before_close es"
  by (induction es rule: prints_before_close.induct) simp_all

lemma prints_before_close_final:
  "Close \<notin> set es \<Longrightarrow> prints_before_close (es @ [Close])"
  by (induction es rule: prints_before_close.induct) simp_all

lemma callback_trace:
  assumes "callback env G L nargs = Returns (r, L', G')"
  shows "\<exists>new. trace G' = trace G @ new \<and> Close \<notin> set new"
proof -
  from assms have "\<exists>hc. G' = reentries G hc \<or>
      (\<exists>m n. G' = glirc_print (reentries G hc) ERROR_MESSAGE m n)"
    by (auto simp: callback_def Let_def split: exec.splits prod.splits if_splits)
  then show ?thesis
    by (auto simp: glirc_print_def reentries_def)
qed

lemma dispatch_stack_empty:
  "dispatch env G (Some L) ev = Returns (Some L', G') \<Longrightarrow> stack L' = []"
  by (cases ev)
     (auto simp: message_entrypoint_def chat_entrypoint_def command_entrypoint_def
        stop_entrypoint_def dest: callback_stack_empty split: exec.splits)

lemma dispatch_null:
  "dispatch env G None ev = Returns (L', G') \<Longrightarrow> L' = None"
  by (cases ev)
     (auto simp: message_entrypoint_def chat_entrypoint_def command_entrypoint_def
        stop_entrypoint_def)

lemma dispatch_all_null:
  "dispatch_all env G None evs = Returns (L', G') \<Longrightarrow> L' = None"
proof (induction evs arbitrary: G)
  case Nil
  then show ?case by simp
next
  case (Cons ev evs)
  then show ?case
    by (auto split: exec.splits dest: dispatch_null)
qed

lemma dispatch_all_stack_empty:
  "stack L = [] \<Longrightarrow> dispatch_all env G (Some L) evs = Returns (Some L', G') \<Longrightarrow> stack L' = []"
proof (induction evs arbitrary: L G)
  case Nil
  then show ?case by simp
next
  case (Cons ev evs)
  from Cons.prems(2) obtain M G1 where step: "dispatch env G (Some L) ev = Returns (M, G1)"
    and rest: "dispatch_all env G1 M evs = Returns (Some L', G')"
    by (auto split: exec.splits)
  show ?case
  proof (cases M)
    case None
    with rest show ?thesis
      by (auto dest: dispatch_all_null)
  next
    case (Some L1)
    with step have "stack L1 = []"
      by (auto dest: dispatch_stack_empty)
    with rest Some show ?thesis
      by (auto intro: Cons.IH)
  qed
qed

subsection \<open>Running the sample environment\<close>

lemmas sample_defs = sample_env_def sample_host_def sample_instance_def sample_call_def
  sample_message_def sample_chat_def sample_command_def faulty_instance_def bare_instance_def

lemmas dispatch_defs = message_entrypoint_def chat_entrypoint_def command_entrypoint_def
  stop_entrypoint_def callback_def lua_pcall_def call_cfunction_def callback_worker_def
  lua_gettable_def index_raw_def lua_call_def adjust_def lua_pushcfunction_def lua_pushliteral_def
  lua_insert_def lua_rotate_def lua_rawgetp_def lua_gettop_def lua_settop_def lua_toboolean_def
  lua_tolstring_def lua_close_def glirc_print_def reentries_def push_def pop_def index2value_def
  valid_index_def absindex_def push_glirc_message_def push_glirc_chat_def push_glirc_command_def
  new_table_def

section \<open>Properties of the specification\<close>

text \<open>
  C1. The \<open>arg\<close> table that the script sees holds the script path at index 0 and
  \<open>args[i]\<close> at index \<open>i\<close> for every \<open>1 \<le> i < n\<close>. The code stores every argument at index 1
  instead. With the three arguments \<open>args.lua\<close>, \<open>a\<close>, \<open>b\<close> and the script
  \<^verbatim>\<open>return arg\<close>, the table that start registers holds \<open>b\<close> at index 1 and nothing at
  index 2.
\<close>

theorem start_arg_table_at_three_arguments:
  "start sample_env sample_host ''/usr/lib/glirc-lua.so'' [''args.lua'', ''a'', ''b''] =
     Returns
      (Some \<lparr>stack = [],
             registry = (\<lambda>_. LNil)(LLightUserdata Glirc_callback_module_key := LTable 0),
             globals = (\<lambda>_. LNil)(''arg'' := LTable 0),
             heap = [\<lparr>entries = (\<lambda>_. LNil)
                        (LNumber 1 := LString ''b'',
                         LNumber 0 := LString ''/home/user/args.lua''),
                      metatable = None\<rparr>],
             extraspace = 7\<rparr>,
       sample_host)"
  by (simp add: start_eq sample_env_def sample_host_def sample_loadfile_def sample_call_def
        c_str_def luaL_openlibs_def glirc_install_lib_def)

text \<open>
  C2. The claim: when the script loads and runs to completion but returns a value that is
  not a table, start reports an error and returns a null instance. The code does not look
  at the type of what the script returned. With the script \<^verbatim>\<open>return 42\<close> start returns
  a live interpreter with 42 in the callback-module slot, and prints nothing.
\<close>

theorem start_number_module_counterexample:
  "start sample_env sample_host ''/usr/lib/glirc-lua.so'' [] =
     Returns
      (Some \<lparr>stack = [],
             registry = (\<lambda>_. LNil)(LLightUserdata Glirc_callback_module_key := LNumber 42),
             globals = (\<lambda>_. LNil)(''arg'' := LTable 0),
             heap = [\<lparr>entries = (\<lambda>_. LNil)(LNumber 0 := LString ''/usr/lib/glirc.lua''),
                      metatable = None\<rparr>],
             extraspace = 7\<rparr>,
       sample_host)"
  by (simp add: start_eq sample_env_def sample_host_def sample_loadfile_def sample_call_def
        sample_dirname_def c_str_def luaL_openlibs_def glirc_install_lib_def)

text \<open>
  C2, as the code has it: on a build with enough extra space, with an interpreter
  allocated and a matching library version, when the script loads and the run that start
  makes of it completes and returns a value that is not a table, start does not fail. It
  returns the live interpreter, in the state the script left, with an empty stack and the
  returned value in the callback-module slot of the registry; the host sees the calls the
  script made and no diagnostic. \<open>P\<close> is the script path and \<open>S0\<close> the state in which
  start calls the script: the libraries installed over an empty registry, the global
  \<open>arg\<close> and its table. The type of the value plays no part in the code.
\<close>

theorem start_keeps_any_module_value:
  assumes build: "\<not> lua_extraspace env < sizeof_glirc_ptr env" "\<not> newstate_fails env"
      "version_error env = None"
    and P: "P = (if args = [] then dirname env path @ ''/glirc.lua''
                 else resolve_path env (handle G) (args ! 0))"
    and load: "loadfile env (c_str P) = Inr chunk"
    and S0: "S0 = (glirc_install_lib env (luaL_openlibs env
               \<lparr>stack = [chunk], registry = (\<lambda>_. LNil),
                globals = (\<lambda>_. LNil)(''arg'' := LTable 0),
                heap = [\<lparr>entries = (if 1 < length args
                                      then (\<lambda>_. LNil)(LNumber 1 := LString (last args))
                                      else (\<lambda>_. LNil))(LNumber 0 := LString P),
                         metatable = None\<rparr>],
                extraspace = handle G\<rparr>))\<lparr>stack := []\<rparr>"
    and runs: "call_value env chunk [] S0 = Some (Inr vs, S, hc)"
    and nontable: "type_of_value (result1 vs) \<noteq> LUA_TTABLE"
  shows "start env G path args =
           Returns (Some (S\<lparr>stack := [],
                      registry := (registry S)
                        (LLightUserdata Glirc_callback_module_key := result1 vs)\<rparr>),
                    G\<lparr>trace := trace G @ map Reentry hc\<rparr>)"
  unfolding start_loaded [OF build P load S0] runs by simp

text \<open>C2, at the default script of the sample environment, which returns 42.\<close>

theorem start_keeps_any_module_value_witness:
  "call_value sample_env (LFunction 1) []
      ((glirc_install_lib sample_env (luaL_openlibs sample_env
          \<lparr>stack = [LFunction 1], registry = (\<lambda>_. LNil),
           globals = (\<lambda>_. LNil)(''arg'' := LTable 0),
           heap = [\<lparr>entries = (\<lambda>_. LNil)(LNumber 0 := LString ''/usr/lib/glirc.lua''),
                    metatable = None\<rparr>],
           extraspace = 7\<rparr>))\<lparr>stack := []\<rparr>) =
     Some (Inr [LNumber 42],
       \<lparr>stack = [], registry = (\<lambda>_. LNil),
        globals = (\<lambda>_. LNil)(''arg'' := LTable 0),
        heap = [\<lparr>entries = (\<lambda>_. LNil)(LNumber 0 := LString ''/usr/lib/glirc.lua''),
                 metatable = None\<rparr>],
        extraspace = 7\<rparr>, []) \<and>
   type_of_value (result1 [LNumber 42]) \<noteq> LUA_TTABLE \<and>
   start sample_env sample_host ''/usr/lib/glirc-lua.so'' [] =
     Returns (Some number_instance, sample_host)"
  using start_keeps_any_module_value [where env = sample_env and G = sample_host
      and path = "''/usr/lib/glirc-lua.so''" and args = "[]" and chunk = "LFunction 1"
      and P = "''/usr/lib/glirc.lua''" and vs = "[LNumber 42]" and hc = "[]"
      and S = "\<lparr>stack = [], registry = (\<lambda>_. LNil),
        globals = (\<lambda>_. LNil)(''arg'' := LTable 0),
        heap = [\<lparr>entries = (\<lambda>_. LNil)(LNumber 0 := LString ''/usr/lib/glirc.lua''),
                 metatable = None\<rparr>],
        extraspace = 7\<rparr>", OF _ _ _ _ _ refl]
  by (simp add: sample_env_def sample_host_def sample_loadfile_def sample_dirname_def
        sample_call_def c_str_def luaL_openlibs_def glirc_install_lib_def number_instance_def)

text \<open>
  C3. The claim: an error value that is not a string, a table for example, is caught and
  coerced to a textual message that goes to the diagnostic sink. The code reads the error
  value with \<open>lua_tolstring\<close>, which gives no text for a table: the chat callback of the
  faulty instance raises a table, and the sink receives a null pointer with length 0.
\<close>

theorem table_error_counterexample:
  "chat_entrypoint sample_env sample_host (Some faulty_instance) sample_chat =
     Returns (PASS_MESSAGE,
       Some ((push_glirc_chat (lua_pushliteral faulty_instance ''process_chat'') sample_chat)
               \<lparr>stack := []\<rparr>),
       \<lparr>handle = 7, trace = [Print ERROR_MESSAGE None 0]\<rparr>)"
  using callback_present [where L = "push_glirc_chat (lua_pushliteral faulty_instance ''process_chat'') sample_chat"
      and name = "''process_chat''" and args = "[LTable 1]" and nargs = 1 and r = 0
      and cb = "LFunction 4" and env = sample_env and G = sample_host]
  by (simp add: chat_entrypoint_def push_glirc_chat_stack push_glirc_chat_registry
        push_glirc_chat_heap lua_pushliteral_fields faulty_instance_def sample_env_def
        sample_call_def sample_host_def glirc_print_def reentries_def)

text \<open>
  C3, as the code has it: when the invoked callback raises an error value, the protected
  call catches it, the dispatch resolves to \<open>PASS_MESSAGE\<close>, and the sink receives
  one error message: the text of the value when it is a string, its decimal text when it
  is a number, and a null pointer with length 0 for every other value. There is no
  coercion of tables, booleans or nil.
\<close>

theorem callback_error_report:
  assumes st: "stack L = LString name # args" and n: "length args = nargs"
    and slot: "registry L (LLightUserdata Glirc_callback_module_key) = LTable r"
    and ref: "r < length (heap L)"
    and cb: "entries (heap L ! r) (LString name) = cb" "cb \<noteq> LNil"
    and raises: "call_value env cb (LTable r # args) (L\<lparr>stack := []\<rparr>) = Some (Inl e, S, hc)"
  shows "callback env G L nargs =
           Returns (PASS_MESSAGE, S\<lparr>stack := []\<rparr>,
             G\<lparr>trace := trace G @ map Reentry hc @
               [case e of
                  LString m \<Rightarrow> Print ERROR_MESSAGE (Some m) (length m)
                | LNumber i \<Rightarrow> Print ERROR_MESSAGE (Some (tostring_integer i))
                                 (length (tostring_integer i))
                | _ \<Rightarrow> Print ERROR_MESSAGE None 0]\<rparr>)"
  unfolding callback_present [OF st n slot ref cb] raises
  by (cases e) (simp_all add: glirc_print_def reentries_def)

text \<open>C3, at the message callback of the faulty instance, which raises the string \<open>boom\<close>.\<close>

theorem callback_error_report_witness:
  "callback sample_env sample_host
      (push_glirc_message (lua_pushliteral faulty_instance ''process_message'') sample_message) 1 =
     Returns (PASS_MESSAGE,
       (push_glirc_message (lua_pushliteral faulty_instance ''process_message'') sample_message)
          \<lparr>stack := []\<rparr>,
       \<lparr>handle = 7, trace = [Print ERROR_MESSAGE (Some ''boom'') 4]\<rparr>)"
  using callback_error_report [where L = "push_glirc_message (lua_pushliteral faulty_instance ''process_message'') sample_message"
      and name = "''process_message''" and args = "[LTable 4]" and nargs = 1 and r = 0
      and cb = "LFunction 3" and env = sample_env and G = sample_host and e = "LString ''boom''"
      and S = "(push_glirc_message (lua_pushliteral faulty_instance ''process_message'') sample_message)\<lparr>stack := []\<rparr>"
      and hc = "[]"]
  by (simp add: push_glirc_message_stack push_glirc_message_registry
        push_glirc_message_heap lua_pushliteral_fields faulty_instance_def sample_env_def
        sample_call_def sample_host_def)

text \<open>
  C4. Whatever start and \<open>stop_entrypoint\<close> add to the record of effects, no diagnostic
  comes after the interpreter has been closed: the report is made first, \<open>lua_close\<close>
  afterwards. This covers the failure path of start and the stop sequence.
\<close>

theorem report_precedes_close:
  "(start env G path args = Returns (inst, G') \<longrightarrow>
      (\<exists>new. trace G' = trace G @ new \<and> prints_before_close new)) \<and>
   (stop_entrypoint env H L = Returns H' \<longrightarrow>
      (\<exists>new. trace H' = trace H @ new \<and> prints_before_close new))"
proof (intro conjI impI)
  assume "start env G path args = Returns (inst, G')"
  then consider
      c m n where "trace G' = trace G @ [Print c m n]"
    | hc c m n where "trace G' = trace G @ (map Reentry hc @ [Print c m n]) @ [Close]"
    | hc where "trace G' = trace G @ map Reentry hc"
    unfolding start_eq
    by (fastforce split: if_splits option.splits sum.splits prod.splits)
  then show "\<exists>new. trace G' = trace G @ new \<and> prints_before_close new"
  proof cases
    case 1
    then show ?thesis by simp
  next
    case 2
    have "prints_before_close ((map Reentry hc @ [Print c m n]) @ [Close])"
      by (rule prints_before_close_final) auto
    with 2 show ?thesis by blast
  next
    case 3
    have "prints_before_close (map Reentry hc)"
      by (rule prints_before_close_no_close) auto
    with 3 show ?thesis by blast
  qed
next
  assume stop: "stop_entrypoint env H L = Returns H'"
  show "\<exists>new. trace H' = trace H @ new \<and> prints_before_close new"
  proof (cases L)
    case None
    with stop have "trace H' = trace H @ []"
      by (simp add: stop_entrypoint_def)
    then show ?thesis
      by (intro exI [of _ "[]"]) simp
  next
    case (Some L0)
    with stop obtain r L1 G1 where cb: "callback env H (lua_pushliteral L0 ''stop'') 0 = Returns (r, L1, G1)"
      and H': "H' = lua_close G1 L1"
      by (auto simp: stop_entrypoint_def split: exec.splits)
    from callback_trace [OF cb] obtain new where new: "trace G1 = trace H @ new" "Close \<notin> set new"
      by blast
    have "trace H' = trace H @ (new @ [Close])"
      by (simp add: H' lua_close_def new)
    moreover have "prints_before_close (new @ [Close])"
      using new(2) by (rule prints_before_close_final)
    ultimately show ?thesis by blast
  qed
qed

text \<open>
  C4, at a start whose script file is missing and at a stop whose callback raises: both
  print and then close.
\<close>

theorem report_precedes_close_witness:
  "start sample_env sample_host ''/usr/lib/glirc-lua.so'' [''missing.lua''] =
     Returns (None, \<lparr>handle = 7, trace =
       [Print ERROR_MESSAGE (Some ''cannot open /home/user/missing.lua'') 34, Close]\<rparr>) \<and>
   stop_entrypoint sample_env sample_host (Some faulty_instance) =
     Returns (\<lparr>handle = 7, trace = [Print ERROR_MESSAGE (Some ''boom'') 4, Close]\<rparr>) \<and>
   prints_before_close [Print ERROR_MESSAGE (Some ''cannot open /home/user/missing.lua'') 34, Close] \<and>
   prints_before_close [Print ERROR_MESSAGE (Some ''boom'') 4, Close]"
proof -
  have one: "start sample_env sample_host ''/usr/lib/glirc-lua.so'' [''missing.lua''] =
     Returns (None, \<lparr>handle = 7, trace =
       [Print ERROR_MESSAGE (Some ''cannot open /home/user/missing.lua'') 34, Close]\<rparr>)"
    by (simp add: start_eq sample_env_def sample_host_def sample_loadfile_def c_str_def)
  have two: "stop_entrypoint sample_env sample_host (Some faulty_instance) =
     Returns (\<lparr>handle = 7, trace = [Print ERROR_MESSAGE (Some ''boom'') 4, Close]\<rparr>)"
    by (simp add: dispatch_defs sample_defs Let_def)
  show ?thesis
    using report_precedes_close [where env = sample_env and G = sample_host
        and path = "''/usr/lib/glirc-lua.so''" and args = "[''missing.lua'']" and inst = None
        and G' = "\<lparr>handle = 7, trace =
          [Print ERROR_MESSAGE (Some ''cannot open /home/user/missing.lua'') 34, Close]\<rparr>"
        and H = sample_host and L = "Some faulty_instance"
        and H' = "\<lparr>handle = 7, trace = [Print ERROR_MESSAGE (Some ''boom'') 4, Close]\<rparr>"]
      one two
    by (simp add: sample_host_def)
qed

text \<open>
  C5. A message or chat event is dispatched to a live instance (empty stack, a callback
  table in the registry slot) that has a callback under the event's name, and the
  callback returns normally with the results \<open>rs\<close>. Then the entry point returns
  \<open>DROP_MESSAGE\<close> if the first result is truthy and \<open>PASS_MESSAGE\<close> if it is falsy or
  absent. \<open>E\<close> is the state in which the callback is called: the instance with the
  event marshaled.
\<close>

theorem message_chat_decision:
  assumes live: "stack L = []"
    and slot: "registry L (LLightUserdata Glirc_callback_module_key) = LTable r"
    and ref: "r < length (heap L)"
    and cb: "entries (heap L ! r) (LString name) = cb" "cb \<noteq> LNil"
    and ret: "call_value env cb [LTable r, index2value E (- 1)] (E\<lparr>stack := []\<rparr>)
                = Some (Inr rs, S, hc)"
  shows "(name = ''process_message'' \<and> E = push_glirc_message (lua_pushliteral L name) msg \<longrightarrow>
            message_entrypoint env G (Some L) msg =
              Returns (if truthy (result1 rs) then DROP_MESSAGE else PASS_MESSAGE,
                       Some (S\<lparr>stack := []\<rparr>), reentries G hc)) \<and>
         (name = ''process_chat'' \<and> E = push_glirc_chat (lua_pushliteral L name) chat \<longrightarrow>
            chat_entrypoint env G (Some L) chat =
              Returns (if truthy (result1 rs) then DROP_MESSAGE else PASS_MESSAGE,
                       Some (S\<lparr>stack := []\<rparr>), reentries G hc))"
proof (intro conjI impI; elim conjE)
  assume n: "name = ''process_message''"
    and E: "E = push_glirc_message (lua_pushliteral L name) msg"
  have st: "stack E = LString name # [LTable (length (heap L) + 3)]"
    by (simp add: E push_glirc_message_stack lua_pushliteral_fields live)
  have "callback env G E 1 =
          Returns (if truthy (result1 rs) then DROP_MESSAGE else PASS_MESSAGE,
                   S\<lparr>stack := []\<rparr>, reentries G hc)"
    using ret index2value_last [of E "[LString name]" "LTable (length (heap L) + 3)"] st ref
    by (subst callback_present [OF st, where r = r and cb = cb])
       (simp_all add: E push_glirc_message_registry push_glirc_message_heap
          lua_pushliteral_fields slot cb)
  then show "message_entrypoint env G (Some L) msg =
              Returns (if truthy (result1 rs) then DROP_MESSAGE else PASS_MESSAGE,
                       Some (S\<lparr>stack := []\<rparr>), reentries G hc)"
    by (simp add: message_entrypoint_def E [symmetric] n [symmetric])
next
  assume n: "name = ''process_chat''"
    and E: "E = push_glirc_chat (lua_pushliteral L name) chat"
  have st: "stack E = LString name # [LTable (length (heap L))]"
    by (simp add: E push_glirc_chat_stack lua_pushliteral_fields live)
  have "callback env G E 1 =
          Returns (if truthy (result1 rs) then DROP_MESSAGE else PASS_MESSAGE,
                   S\<lparr>stack := []\<rparr>, reentries G hc)"
    using ret index2value_last [of E "[LString name]" "LTable (length (heap L))"] st ref
    by (subst callback_present [OF st, where r = r and cb = cb])
       (simp_all add: E push_glirc_chat_registry push_glirc_chat_heap
          lua_pushliteral_fields slot cb)
  then show "chat_entrypoint env G (Some L) chat =
              Returns (if truthy (result1 rs) then DROP_MESSAGE else PASS_MESSAGE,
                       Some (S\<lparr>stack := []\<rparr>), reentries G hc)"
    by (simp add: chat_entrypoint_def E [symmetric] n [symmetric])
qed

text \<open>
  C5, at the sample instance: the message callback returns true, the chat callback
  returns nothing.
\<close>

theorem message_chat_decision_witness:
  "message_entrypoint sample_env sample_host (Some sample_instance) sample_message =
     Returns (DROP_MESSAGE,
        Some ((push_glirc_message (lua_pushliteral sample_instance ''process_message'') sample_message)
                \<lparr>stack := []\<rparr>),
        sample_host) \<and>
   chat_entrypoint sample_env sample_host (Some sample_instance) sample_chat =
     Returns (PASS_MESSAGE,
        Some ((push_glirc_chat (lua_pushliteral sample_instance ''process_chat'') sample_chat)
                \<lparr>stack := []\<rparr>),
        \<lparr>handle = 7, trace = [Reentry (HostCall ''print'' [''seen''])]\<rparr>)"
  using
    message_chat_decision [where L = sample_instance and r = 0 and name = "''process_message''"
      and cb = "LFunction 2" and env = sample_env
      and E = "push_glirc_message (lua_pushliteral sample_instance ''process_message'') sample_message"
      and rs = "[LBoolean True]"
      and S = "(push_glirc_message (lua_pushliteral sample_instance ''process_message'') sample_message)\<lparr>stack := []\<rparr>"
      and hc = "[]" and msg = sample_message and G = sample_host]
    message_chat_decision [where L = sample_instance and r = 0 and name = "''process_chat''"
      and cb = "LFunction 5" and env = sample_env
      and E = "push_glirc_chat (lua_pushliteral sample_instance ''process_chat'') sample_chat"
      and rs = "[]"
      and S = "(push_glirc_chat (lua_pushliteral sample_instance ''process_chat'') sample_chat)\<lparr>stack := []\<rparr>"
      and hc = "[HostCall ''print'' [''seen'']]" and chat = sample_chat and G = sample_host]
  by (simp add: sample_defs reentries_def)

text \<open>
  C6. The claim: an event dispatched to a live instance whose callback table has no entry
  under the event's name returns \<open>PASS_MESSAGE\<close> (or nothing), calls no script and
  emits no diagnostic. The code looks the name up with \<open>lua_gettable\<close> in whatever value
  the script returned. The instance that start returns for the script \<^verbatim>\<open>return 42\<close> has
  no entry under any name; there the lookup raises, and the message entry point prints
  an error diagnostic.
\<close>

theorem missing_entry_on_number_module_counterexample:
  "start sample_env sample_host ''/usr/lib/glirc-lua.so'' [] =
     Returns (Some number_instance, sample_host) \<and>
   message_entrypoint sample_env sample_host (Some number_instance) sample_message =
     Returns (PASS_MESSAGE,
       Some ((push_glirc_message (lua_pushliteral number_instance ''process_message'') sample_message)
               \<lparr>stack := []\<rparr>),
       \<lparr>handle = 7, trace =
          [Print ERROR_MESSAGE (Some ''attempt to index a number value'') 31]\<rparr>)"
  by (simp add: start_eq sample_env_def sample_host_def sample_loadfile_def sample_call_def
        sample_dirname_def c_str_def luaL_openlibs_def glirc_install_lib_def number_instance_def
        dispatch_defs sample_message_def Let_def)

text \<open>
  C6, as the code has it: an event is dispatched to a live instance whose callback module
  is a table without metatable, and the table has no entry under the event's name. Then
  the message and chat entry points return \<open>PASS_MESSAGE\<close>, the command and stop entry
  points just return, and the host's record gets no diagnostic (stop adds the
  \<open>Close\<close>). The equations hold in every environment, also in one where no script call
  ever returns: no script is called.
\<close>

theorem absent_callback_is_silent:
  assumes live: "stack L = []"
    and slot: "registry L (LLightUserdata Glirc_callback_module_key) = LTable r"
    and ref: "r < length (heap L)"
    and plain: "metatable (heap L ! r) = None"
  shows "(entries (heap L ! r) (LString ''process_message'') = LNil \<longrightarrow>
            message_entrypoint env G (Some L) msg =
              Returns (PASS_MESSAGE,
                Some ((push_glirc_message (lua_pushliteral L ''process_message'') msg)\<lparr>stack := []\<rparr>), G)) \<and>
         (entries (heap L ! r) (LString ''process_chat'') = LNil \<longrightarrow>
            chat_entrypoint env G (Some L) chat =
              Returns (PASS_MESSAGE,
                Some ((push_glirc_chat (lua_pushliteral L ''process_chat'') chat)\<lparr>stack := []\<rparr>), G)) \<and>
         (entries (heap L ! r) (LString ''process_command'') = LNil \<longrightarrow>
            command_entrypoint env G (Some L) cmd =
              Returns (Some ((push_glirc_command (lua_pushliteral L ''process_command'') cmd)\<lparr>stack := []\<rparr>), G)) \<and>
         (entries (heap L ! r) (LString ''stop'') = LNil \<longrightarrow>
            stop_entrypoint env G (Some L) = Returns (G\<lparr>trace := trace G @ [Close]\<rparr>))"
proof (intro conjI impI)
  assume none: "entries (heap L ! r) (LString ''process_message'') = LNil"
  let ?E = "push_glirc_message (lua_pushliteral L ''process_message'') msg"
  have st: "stack ?E = LString ''process_message'' # [LTable (length (heap L) + 3)]"
    by (simp add: push_glirc_message_stack lua_pushliteral_fields live)
  have "callback env G ?E 1 = Returns (PASS_MESSAGE, ?E\<lparr>stack := []\<rparr>, G)"
    using ref
    by (intro callback_absent [OF st, where r = r])
       (simp_all add: push_glirc_message_registry push_glirc_message_heap
          lua_pushliteral_fields slot none plain)
  then show "message_entrypoint env G (Some L) msg = Returns (PASS_MESSAGE, Some (?E\<lparr>stack := []\<rparr>), G)"
    by (simp add: message_entrypoint_def)
next
  assume none: "entries (heap L ! r) (LString ''process_chat'') = LNil"
  let ?E = "push_glirc_chat (lua_pushliteral L ''process_chat'') chat"
  have st: "stack ?E = LString ''process_chat'' # [LTable (length (heap L))]"
    by (simp add: push_glirc_chat_stack lua_pushliteral_fields live)
  have "callback env G ?E 1 = Returns (PASS_MESSAGE, ?E\<lparr>stack := []\<rparr>, G)"
    using ref
    by (intro callback_absent [OF st, where r = r])
       (simp_all add: push_glirc_chat_registry push_glirc_chat_heap
          lua_pushliteral_fields slot none plain)
  then show "chat_entrypoint env G (Some L) chat = Returns (PASS_MESSAGE, Some (?E\<lparr>stack := []\<rparr>), G)"
    by (simp add: chat_entrypoint_def)
next
  assume none: "entries (heap L ! r) (LString ''process_command'') = LNil"
  let ?E = "push_glirc_command (lua_pushliteral L ''process_command'') cmd"
  have st: "stack ?E = LString ''process_command'' # [LTable (length (heap L))]"
    by (simp add: push_glirc_command_stack lua_pushliteral_fields live)
  have "callback env G ?E 1 = Returns (PASS_MESSAGE, ?E\<lparr>stack := []\<rparr>, G)"
    using ref
    by (intro callback_absent [OF st, where r = r])
       (simp_all add: push_glirc_command_registry push_glirc_command_heap
          lua_pushliteral_fields slot none plain)
  then show "command_entrypoint env G (Some L) cmd = Returns (Some (?E\<lparr>stack := []\<rparr>), G)"
    by (simp add: command_entrypoint_def)
next
  assume none: "entries (heap L ! r) (LString ''stop'') = LNil"
  let ?E = "lua_pushliteral L ''stop''"
  have st: "stack ?E = LString ''stop'' # []"
    by (simp add: lua_pushliteral_fields live)
  have "callback env G ?E 0 = Returns (PASS_MESSAGE, ?E\<lparr>stack := []\<rparr>, G)"
    using ref
    by (intro callback_absent [OF st, where r = r])
       (simp_all add: lua_pushliteral_fields slot none plain)
  then show "stop_entrypoint env G (Some L) = Returns (G\<lparr>trace := trace G @ [Close]\<rparr>)"
    by (simp add: stop_entrypoint_def lua_close_def)
qed

text \<open>
  C6, at the instance whose script returned an empty table, in an environment where
  every call of a script diverges.
\<close>

theorem absent_callback_is_silent_witness:
  "message_entrypoint (sample_env\<lparr>call_value := (\<lambda>f args S. None)\<rparr>) sample_host
       (Some bare_instance) sample_message =
     Returns (PASS_MESSAGE,
       Some ((push_glirc_message (lua_pushliteral bare_instance ''process_message'') sample_message)
               \<lparr>stack := []\<rparr>), sample_host) \<and>
   chat_entrypoint (sample_env\<lparr>call_value := (\<lambda>f args S. None)\<rparr>) sample_host
       (Some bare_instance) sample_chat =
     Returns (PASS_MESSAGE,
       Some ((push_glirc_chat (lua_pushliteral bare_instance ''process_chat'') sample_chat)
               \<lparr>stack := []\<rparr>), sample_host) \<and>
   command_entrypoint (sample_env\<lparr>call_value := (\<lambda>f args S. None)\<rparr>) sample_host
       (Some bare_instance) sample_command =
     Returns (Some ((push_glirc_command (lua_pushliteral bare_instance ''process_command'') sample_command)
               \<lparr>stack := []\<rparr>), sample_host) \<and>
   stop_entrypoint (sample_env\<lparr>call_value := (\<lambda>f args S. None)\<rparr>) sample_host
       (Some bare_instance) = Returns (\<lparr>handle = 7, trace = [Close]\<rparr>)"
  using absent_callback_is_silent [where L = bare_instance and r = 0
      and env = "sample_env\<lparr>call_value := (\<lambda>f args S. None)\<rparr>" and G = sample_host
      and msg = sample_message and chat = sample_chat and cmd = sample_command]
  by (simp add: bare_instance_def sample_host_def)

text \<open>
  C7. An event is dispatched to a live instance, and the callback under the event's name
  raises the error value \<open>e\<close>. Then the message and chat entry points return
  \<open>PASS_MESSAGE\<close> and the command entry point just returns; the host's record gets,
  after the host calls the callback made, exactly one error diagnostic; and the instance
  stays: it is the state the callback left, with an empty stack, and every further event
  is dispatched on it. For the stop event the dispatch itself does the same; the entry
  point then closes the interpreter, as stop must.
\<close>

theorem callback_error_is_isolated:
  assumes live: "stack L = []"
    and slot: "registry L (LLightUserdata Glirc_callback_module_key) = LTable r"
    and ref: "r < length (heap L)"
    and cb: "entries (heap L ! r) (LString name) = cb" "cb \<noteq> LNil"
    and raises: "call_value env cb (LTable r # args) (E\<lparr>stack := []\<rparr>) = Some (Inl e, S, hc)"
    and report: "G' = G\<lparr>trace := trace G @ map Reentry hc @
                   [Print ERROR_MESSAGE (tostring_value e)
                      (case tostring_value e of None \<Rightarrow> 0 | Some m \<Rightarrow> length m)]\<rparr>"
  shows "(name = ''process_message'' \<and> E = push_glirc_message (lua_pushliteral L name) msg \<and>
          args = [index2value E (- 1)] \<longrightarrow>
            message_entrypoint env G (Some L) msg =
              Returns (PASS_MESSAGE, Some (S\<lparr>stack := []\<rparr>), G') \<and>
            dispatch_all env G (Some L) (Message msg # evs) =
              dispatch_all env G' (Some (S\<lparr>stack := []\<rparr>)) evs) \<and>
         (name = ''process_chat'' \<and> E = push_glirc_chat (lua_pushliteral L name) chat \<and>
          args = [index2value E (- 1)] \<longrightarrow>
            chat_entrypoint env G (Some L) chat =
              Returns (PASS_MESSAGE, Some (S\<lparr>stack := []\<rparr>), G') \<and>
            dispatch_all env G (Some L) (Chat chat # evs) =
              dispatch_all env G' (Some (S\<lparr>stack := []\<rparr>)) evs) \<and>
         (name = ''process_command'' \<and> E = push_glirc_command (lua_pushliteral L name) cmd \<and>
          args = [index2value E (- 1)] \<longrightarrow>
            command_entrypoint env G (Some L) cmd = Returns (Some (S\<lparr>stack := []\<rparr>), G') \<and>
            dispatch_all env G (Some L) (Command cmd # evs) =
              dispatch_all env G' (Some (S\<lparr>stack := []\<rparr>)) evs) \<and>
         (name = ''stop'' \<and> E = lua_pushliteral L name \<and> args = [] \<longrightarrow>
            callback env G E 0 = Returns (PASS_MESSAGE, S\<lparr>stack := []\<rparr>, G') \<and>
            stop_entrypoint env G (Some L) = Returns (G'\<lparr>trace := trace G' @ [Close]\<rparr>))"
proof -
  have run: "callback env G E (length args) = Returns (PASS_MESSAGE, S\<lparr>stack := []\<rparr>, G')"
    if st: "stack E = LString name # args"
      and reg: "registry E = registry L"
      and hp: "heap E ! r = heap L ! r" "r < length (heap E)"
    using raises hp
    by (subst callback_present [OF st, where r = r and cb = cb])
       (simp_all add: reg slot cb report glirc_print_def reentries_def)
  have top: "args = [p]" if "stack E = [LString name, p]" "args = [index2value E (- 1)]" for p
    using that index2value_last [of E "[LString name]" p] by simp
  have msg: "message_entrypoint env G (Some L) msg = Returns (PASS_MESSAGE, Some (S\<lparr>stack := []\<rparr>), G')"
    if "name = ''process_message''" "E = push_glirc_message (lua_pushliteral L name) msg"
      "args = [index2value E (- 1)]"
  proof -
    have st: "stack E = [LString name, LTable (length (heap L) + 3)]"
      using that by (simp add: push_glirc_message_stack lua_pushliteral_fields live)
    from top [OF st that(3)] have "callback env G E 1 = Returns (PASS_MESSAGE, S\<lparr>stack := []\<rparr>, G')"
      using run st that(2) ref
      by (simp add: push_glirc_message_registry push_glirc_message_heap lua_pushliteral_fields)
    then show ?thesis
      using that(1,2) by (simp add: message_entrypoint_def)
  qed
  have chat: "chat_entrypoint env G (Some L) chat = Returns (PASS_MESSAGE, Some (S\<lparr>stack := []\<rparr>), G')"
    if "name = ''process_chat''" "E = push_glirc_chat (lua_pushliteral L name) chat"
      "args = [index2value E (- 1)]"
  proof -
    have st: "stack E = [LString name, LTable (length (heap L))]"
      using that by (simp add: push_glirc_chat_stack lua_pushliteral_fields live)
    from top [OF st that(3)] have "callback env G E 1 = Returns (PASS_MESSAGE, S\<lparr>stack := []\<rparr>, G')"
      using run st that(2) ref
      by (simp add: push_glirc_chat_registry push_glirc_chat_heap lua_pushliteral_fields)
    then show ?thesis
      using that(1,2) by (simp add: chat_entrypoint_def)
  qed
  have cmd: "command_entrypoint env G (Some L) cmd = Returns (Some (S\<lparr>stack := []\<rparr>), G')"
    if "name = ''process_command''" "E = push_glirc_command (lua_pushliteral L name) cmd"
      "args = [index2value E (- 1)]"
  proof -
    have st: "stack E = [LString name, LTable (length (heap L))]"
      using that by (simp add: push_glirc_command_stack lua_pushliteral_fields live)
    from top [OF st that(3)] have "callback env G E 1 = Returns (PASS_MESSAGE, S\<lparr>stack := []\<rparr>, G')"
      using run st that(2) ref
      by (simp add: push_glirc_command_registry push_glirc_command_heap lua_pushliteral_fields)
    then show ?thesis
      using that(1,2) by (simp add: command_entrypoint_def)
  qed
  have stop: "callback env G E 0 = Returns (PASS_MESSAGE, S\<lparr>stack := []\<rparr>, G')"
    if "name = ''stop''" "E = lua_pushliteral L name" "args = []"
    using run that ref by (simp add: lua_pushliteral_fields live)
  then have "stop_entrypoint env G (Some L) = Returns (G'\<lparr>trace := trace G' @ [Close]\<rparr>)"
    if "name = ''stop''" "E = lua_pushliteral L name" "args = []"
    using that by (simp add: stop_entrypoint_def lua_close_def)
  with stop show ?thesis
    using msg chat cmd by simp
qed

text \<open>C7, at the four callbacks of the faulty instance.\<close>

theorem callback_error_is_isolated_witness:
  "message_entrypoint sample_env sample_host (Some faulty_instance) sample_message =
     Returns (PASS_MESSAGE,
       Some ((push_glirc_message (lua_pushliteral faulty_instance ''process_message'') sample_message)
               \<lparr>stack := []\<rparr>),
       \<lparr>handle = 7, trace = [Print ERROR_MESSAGE (Some ''boom'') 4]\<rparr>) \<and>
   chat_entrypoint sample_env sample_host (Some faulty_instance) sample_chat =
     Returns (PASS_MESSAGE,
       Some ((push_glirc_chat (lua_pushliteral faulty_instance ''process_chat'') sample_chat)
               \<lparr>stack := []\<rparr>),
       \<lparr>handle = 7, trace = [Print ERROR_MESSAGE None 0]\<rparr>) \<and>
   command_entrypoint sample_env sample_host (Some faulty_instance) sample_command =
     Returns (Some ((push_glirc_command (lua_pushliteral faulty_instance ''process_command'') sample_command)
               \<lparr>stack := []\<rparr>),
       \<lparr>handle = 7, trace = [Print ERROR_MESSAGE (Some ''boom'') 4]\<rparr>) \<and>
   dispatch_all sample_env sample_host (Some faulty_instance)
       [Command sample_command, Command sample_command] =
     dispatch_all sample_env \<lparr>handle = 7, trace = [Print ERROR_MESSAGE (Some ''boom'') 4]\<rparr>
       (Some ((push_glirc_command (lua_pushliteral faulty_instance ''process_command'') sample_command)
               \<lparr>stack := []\<rparr>))
       [Command sample_command] \<and>
   callback sample_env sample_host (lua_pushliteral faulty_instance ''stop'') 0 =
     Returns (PASS_MESSAGE, faulty_instance,
       \<lparr>handle = 7, trace = [Print ERROR_MESSAGE (Some ''boom'') 4]\<rparr>) \<and>
   stop_entrypoint sample_env sample_host (Some faulty_instance) =
     Returns (\<lparr>handle = 7, trace = [Print ERROR_MESSAGE (Some ''boom'') 4, Close]\<rparr>)"
  using
    callback_error_is_isolated [where L = faulty_instance and r = 0 and name = "''process_message''"
      and cb = "LFunction 3" and env = sample_env and e = "LString ''boom''" and hc = "[]"
      and E = "push_glirc_message (lua_pushliteral faulty_instance ''process_message'') sample_message"
      and args = "[LTable 4]"
      and S = "(push_glirc_message (lua_pushliteral faulty_instance ''process_message'') sample_message)\<lparr>stack := []\<rparr>"
      and G = sample_host and msg = sample_message
      and G' = "\<lparr>handle = 7, trace = [Print ERROR_MESSAGE (Some ''boom'') 4]\<rparr>"]
    callback_error_is_isolated [where L = faulty_instance and r = 0 and name = "''process_chat''"
      and cb = "LFunction 4" and env = sample_env and e = "LTable 0" and hc = "[]"
      and E = "push_glirc_chat (lua_pushliteral faulty_instance ''process_chat'') sample_chat"
      and args = "[LTable 1]"
      and S = "(push_glirc_chat (lua_pushliteral faulty_instance ''process_chat'') sample_chat)\<lparr>stack := []\<rparr>"
      and G = sample_host and chat = sample_chat
      and G' = "\<lparr>handle = 7, trace = [Print ERROR_MESSAGE None 0]\<rparr>"]
    callback_error_is_isolated [where L = faulty_instance and r = 0 and name = "''process_command''"
      and cb = "LFunction 3" and env = sample_env and e = "LString ''boom''" and hc = "[]"
      and E = "push_glirc_command (lua_pushliteral faulty_instance ''process_command'') sample_command"
      and args = "[LTable 1]"
      and S = "(push_glirc_command (lua_pushliteral faulty_instance ''process_command'') sample_command)\<lparr>stack := []\<rparr>"
      and G = sample_host and cmd = sample_command and evs = "[Command sample_command]"
      and G' = "\<lparr>handle = 7, trace = [Print ERROR_MESSAGE (Some ''boom'') 4]\<rparr>"]
    callback_error_is_isolated [where L = faulty_instance and r = 0 and name = "''stop''"
      and cb = "LFunction 3" and env = sample_env and e = "LString ''boom''" and hc = "[]"
      and E = "lua_pushliteral faulty_instance ''stop''" and args = "[]"
      and S = "faulty_instance" and G = sample_host
      and G' = "\<lparr>handle = 7, trace = [Print ERROR_MESSAGE (Some ''boom'') 4]\<rparr>"]
  by (simp add: faulty_instance_def sample_env_def sample_call_def sample_host_def
        push_glirc_message_stack push_glirc_chat_stack push_glirc_command_stack
        lua_pushliteral_fields index2value_last lua_pushliteral_def push_def)

text \<open>
  C8. With no arguments the script path that \<open>push_scriptname\<close> pushes is the
  directory part of the library path followed by \<open>/glirc.lua\<close>; with arguments it is
  \<open>args[0]\<close> resolved by the host. This path \<open>P\<close>, read as a C string, is what start
  hands to the loader: start depends on the loader only through its answer at \<open>P\<close>;
  when the loader fails at \<open>P\<close>, start reports the loader's message for \<open>P\<close> and
  closes; when it yields a chunk at \<open>P\<close>, start calls that chunk, in the state \<open>S0\<close>,
  and its outcome is the outcome of that call.
\<close>

theorem script_path_passed_to_loader:
  assumes P: "P = (if args = [] then dirname env path @ ''/glirc.lua''
                   else resolve_path env (handle G) (args ! 0))"
    and S0: "S0 = (glirc_install_lib env (luaL_openlibs env
               \<lparr>stack = [chunk], registry = (\<lambda>_. LNil),
                globals = (\<lambda>_. LNil)(''arg'' := LTable 0),
                heap = [\<lparr>entries = (if 1 < length args
                                      then (\<lambda>_. LNil)(LNumber 1 := LString (last args))
                                      else (\<lambda>_. LNil))(LNumber 0 := LString P),
                         metatable = None\<rparr>],
                extraspace = handle G\<rparr>))\<lparr>stack := []\<rparr>"
  shows "(args = [] \<longrightarrow>
            index2value (push_scriptname env L path args) (- 1) =
              LString (dirname env path @ ''/glirc.lua'')) \<and>
         (args \<noteq> [] \<longrightarrow>
            index2value (push_scriptname env L path args) (- 1) =
              LString (resolve_path env (get_glirc L) (args ! 0))) \<and>
         (lf (c_str P) = loadfile env (c_str P) \<longrightarrow>
            start (env\<lparr>loadfile := lf\<rparr>) G path args = start env G path args) \<and>
         (\<not> lua_extraspace env < sizeof_glirc_ptr env \<and> \<not> newstate_fails env \<and>
          version_error env = None \<and> loadfile env (c_str P) = Inl msg \<longrightarrow>
            start env G path args =
              Returns (None, G\<lparr>trace := trace G @
                [Print ERROR_MESSAGE (Some (c_str msg)) (length (c_str msg)), Close]\<rparr>)) \<and>
         (\<not> lua_extraspace env < sizeof_glirc_ptr env \<and> \<not> newstate_fails env \<and>
          version_error env = None \<and> loadfile env (c_str P) = Inr chunk \<longrightarrow>
            start env G path args =
              (case call_value env chunk [] S0 of
                 None \<Rightarrow> Diverges
               | Some (Inl e, S, hc) \<Rightarrow>
                   (case tostring_value e of
                      None \<Rightarrow> Faults NullDereference
                    | Some m \<Rightarrow> Returns (None, G\<lparr>trace := trace G @ map Reentry hc @
                        [Print ERROR_MESSAGE (Some (c_str m)) (length (c_str m)), Close]\<rparr>))
               | Some (Inr vs, S, hc) \<Rightarrow>
                   Returns (Some (S\<lparr>stack := [],
                       registry := (registry S)
                         (LLightUserdata Glirc_callback_module_key := result1 vs)\<rparr>),
                     G\<lparr>trace := trace G @ map Reentry hc\<rparr>)))"
proof (intro conjI impI; (elim conjE)?)
  assume "args = []"
  then show "index2value (push_scriptname env L path args) (- 1) =
               LString (dirname env path @ ''/glirc.lua'')"
    by (simp add: push_scriptname_def push_def index2value_last)
next
  assume "args \<noteq> []"
  then show "index2value (push_scriptname env L path args) (- 1) =
               LString (resolve_path env (get_glirc L) (args ! 0))"
    by (simp add: push_scriptname_def lua_pushstring_def push_def index2value_last)
next
  assume same: "lf (c_str P) = loadfile env (c_str P)"
  have libs: "luaL_openlibs (env\<lparr>loadfile := lf\<rparr>) = luaL_openlibs env"
    "glirc_install_lib (env\<lparr>loadfile := lf\<rparr>) = glirc_install_lib env"
    by (simp_all add: luaL_openlibs_def glirc_install_lib_def fun_eq_iff)
  show "start (env\<lparr>loadfile := lf\<rparr>) G path args = start env G path args"
  proof (cases "args = []")
    case True
    with same P have "lf (c_str (dirname env path @ ''/glirc.lua'')) =
        loadfile env (c_str (dirname env path @ ''/glirc.lua''))"
      by simp
    then show ?thesis
      by (simp add: start_eq libs True cong: option.case_cong sum.case_cong)
  next
    case False
    with same P have "lf (c_str (resolve_path env (handle G) (args ! 0))) =
        loadfile env (c_str (resolve_path env (handle G) (args ! 0)))"
      by simp
    then show ?thesis
      by (simp add: start_eq libs False cong: option.case_cong sum.case_cong)
  qed
next
  assume "\<not> lua_extraspace env < sizeof_glirc_ptr env" "\<not> newstate_fails env"
    "version_error env = None" "loadfile env (c_str P) = Inl msg"
  then show "start env G path args =
      Returns (None, G\<lparr>trace := trace G @
        [Print ERROR_MESSAGE (Some (c_str msg)) (length (c_str msg)), Close]\<rparr>)"
    by (rule start_load_error [OF _ _ _ P])
next
  assume "\<not> lua_extraspace env < sizeof_glirc_ptr env" "\<not> newstate_fails env"
    "version_error env = None" "loadfile env (c_str P) = Inr chunk"
  then show "start env G path args =
      (case call_value env chunk [] S0 of
         None \<Rightarrow> Diverges
       | Some (Inl e, S, hc) \<Rightarrow>
           (case tostring_value e of
              None \<Rightarrow> Faults NullDereference
            | Some m \<Rightarrow> Returns (None, G\<lparr>trace := trace G @ map Reentry hc @
                [Print ERROR_MESSAGE (Some (c_str m)) (length (c_str m)), Close]\<rparr>))
       | Some (Inr vs, S, hc) \<Rightarrow>
           Returns (Some (S\<lparr>stack := [],
               registry := (registry S)
                 (LLightUserdata Glirc_callback_module_key := result1 vs)\<rparr>),
             G\<lparr>trace := trace G @ map Reentry hc\<rparr>))"
    by (rule start_loaded [OF _ _ _ P _ S0])
qed

text \<open>
  C8, with no argument, where the default script loads, and with the argument
  \<open>foo.lua\<close>, where the loader fails.
\<close>

theorem script_path_passed_to_loader_witness:
  "index2value (push_scriptname sample_env bare_instance ''/usr/lib/glirc-lua.so'' []) (- 1) =
     LString ''/usr/lib/glirc.lua'' \<and>
   index2value (push_scriptname sample_env bare_instance ''/usr/lib/glirc-lua.so'' [''foo.lua'']) (- 1) =
     LString ''/home/user/foo.lua'' \<and>
   start (sample_env\<lparr>loadfile :=
            (\<lambda>p. if p = ''/usr/lib/glirc.lua'' then Inr (LFunction 1) else Inl ''no such file'')\<rparr>)
       sample_host ''/usr/lib/glirc-lua.so'' [] =
     start sample_env sample_host ''/usr/lib/glirc-lua.so'' [] \<and>
   loadfile sample_env ''/home/user/foo.lua'' = Inl ''cannot open /home/user/foo.lua'' \<and>
   start sample_env sample_host ''/usr/lib/glirc-lua.so'' [''foo.lua''] =
     Returns (None, \<lparr>handle = 7, trace =
       [Print ERROR_MESSAGE (Some ''cannot open /home/user/foo.lua'') 30, Close]\<rparr>) \<and>
   loadfile sample_env ''/usr/lib/glirc.lua'' = Inr (LFunction 1) \<and>
   start sample_env sample_host ''/usr/lib/glirc-lua.so'' [] =
     Returns (Some number_instance, sample_host)"
  using
    script_path_passed_to_loader [where args = "[]" and env = sample_env
      and path = "''/usr/lib/glirc-lua.so''" and G = sample_host and L = bare_instance
      and P = "''/usr/lib/glirc.lua''" and chunk = "LFunction 1"
      and lf = "\<lambda>p. if p = ''/usr/lib/glirc.lua'' then Inr (LFunction 1) else Inl ''no such file''",
      OF _ refl]
    script_path_passed_to_loader [where args = "[''foo.lua'']" and env = sample_env
      and path = "''/usr/lib/glirc-lua.so''" and G = sample_host and L = bare_instance
      and P = "''/home/user/foo.lua''" and lf = sample_loadfile
      and msg = "''cannot open /home/user/foo.lua''", OF _ refl]
  by (simp add: sample_env_def sample_dirname_def sample_loadfile_def sample_host_def
        bare_instance_def get_glirc_def c_str_def sample_call_def luaL_openlibs_def
        glirc_install_lib_def number_instance_def)

text \<open>
  C9. Whenever \<open>callback\<close> returns, on the normal path and on the error path, the
  interpreter stack is empty; so after any sequence of events delivered to a live
  instance the stack of the instance, if it is still there, is empty.
\<close>

theorem stack_empty_between_events:
  "(callback env G L nargs = Returns (r, L', G') \<longrightarrow> stack L' = []) \<and>
   (stack M = [] \<and> dispatch_all env H (Some M) evs = Returns (Some M', H') \<longrightarrow> stack M' = [])"
  by (auto dest: callback_stack_empty dispatch_all_stack_empty)

text \<open>C9, at the sample instance: one dispatch, and a message followed by a command that raises.\<close>

theorem stack_empty_between_events_witness:
  "callback sample_env sample_host
      (push_glirc_message (lua_pushliteral sample_instance ''process_message'') sample_message) 1 =
     Returns (DROP_MESSAGE,
       (push_glirc_message (lua_pushliteral sample_instance ''process_message'') sample_message)
          \<lparr>stack := []\<rparr>, sample_host) \<and>
   stack ((push_glirc_message (lua_pushliteral sample_instance ''process_message'') sample_message)
          \<lparr>stack := []\<rparr>) = [] \<and>
   stack sample_instance = [] \<and>
   dispatch_all sample_env sample_host (Some sample_instance)
       [Message sample_message, Command sample_command] =
     Returns (Some ((push_glirc_command
         (lua_pushliteral
            ((push_glirc_message (lua_pushliteral sample_instance ''process_message'') sample_message)
               \<lparr>stack := []\<rparr>) ''process_command'') sample_command)\<lparr>stack := []\<rparr>),
       \<lparr>handle = 7, trace = [Print ERROR_MESSAGE (Some ''boom'') 4]\<rparr>) \<and>
   stack ((push_glirc_command
         (lua_pushliteral
            ((push_glirc_message (lua_pushliteral sample_instance ''process_message'') sample_message)
               \<lparr>stack := []\<rparr>) ''process_command'') sample_command)\<lparr>stack := []\<rparr>) = []"
proof -
  let ?E = "push_glirc_message (lua_pushliteral sample_instance ''process_message'') sample_message"
  let ?M = "(push_glirc_command (lua_pushliteral (?E\<lparr>stack := []\<rparr>) ''process_command'')
              sample_command)\<lparr>stack := []\<rparr>"
  have one: "callback sample_env sample_host ?E 1 =
      Returns (DROP_MESSAGE, ?E\<lparr>stack := []\<rparr>, sample_host)"
    by (simp add: dispatch_defs sample_defs Let_def)
  have two: "dispatch_all sample_env sample_host (Some sample_instance)
       [Message sample_message, Command sample_command] =
     Returns (Some ?M, \<lparr>handle = 7, trace = [Print ERROR_MESSAGE (Some ''boom'') 4]\<rparr>)"
    by (simp add: dispatch_defs sample_defs Let_def)
  show ?thesis
    using stack_empty_between_events [where env = sample_env and G = sample_host and L = ?E
        and nargs = 1 and r = DROP_MESSAGE and L' = "?E\<lparr>stack := []\<rparr>" and G' = sample_host
        and M = sample_instance and H = sample_host
        and evs = "[Message sample_message, Command sample_command]" and M' = ?M
        and H' = "\<lparr>handle = 7, trace = [Print ERROR_MESSAGE (Some ''boom'') 4]\<rparr>"]
      one two
    by (simp add: sample_instance_def)
qed

text \<open>
  C10. When \<open>luaL_newstate\<close> returns no interpreter, start prints the fixed message
  \<open>Failed to allocate Lua interpreter\<close> as an error, returns a null instance and closes
  nothing.
\<close>

theorem start_allocation_failure:
  assumes "\<not> lua_extraspace env < sizeof_glirc_ptr env" and "luaL_newstate env = None"
  shows "start env G path args =
           Returns (None, G\<lparr>trace := trace G @
             [Print ERROR_MESSAGE (Some ''Failed to allocate Lua interpreter'') 34]\<rparr>)"
  using assms by (simp add: start_def start_cleanup_def glirc_print_def strlen_def)

theorem start_allocation_failure_witness:
  "\<not> lua_extraspace (sample_env\<lparr>newstate_fails := True\<rparr>)
       < sizeof_glirc_ptr (sample_env\<lparr>newstate_fails := True\<rparr>) \<and>
   luaL_newstate (sample_env\<lparr>newstate_fails := True\<rparr>) = None \<and>
   start (sample_env\<lparr>newstate_fails := True\<rparr>) sample_host ''/usr/lib/glirc-lua.so'' [] =
     Returns (None, \<lparr>handle = 7, trace =
       [Print ERROR_MESSAGE (Some ''Failed to allocate Lua interpreter'') 34]\<rparr>)"
  using start_allocation_failure [of "sample_env\<lparr>newstate_fails := True\<rparr>" sample_host
      "''/usr/lib/glirc-lua.so''" "[]"]
  by (simp add: sample_env_def sample_host_def luaL_newstate_def)

end
